theory Spec2Isabelle
  imports Complex_Main "HOL-Library.Word" "HOL-Library.Sublist"
begin

unbundle bit_operations_syntax

section \<open>Python strings\<close>

text \<open>
  Python \<open>str\<close> values are modelled as \<open>string\<close>. \<open>startswith\<close> is \<open>prefix\<close>.
  \<open>str.replace(old, new)\<close> scans from the left and substitutes every non-overlapping
  occurrence of \<open>old\<close>; with an empty \<open>old\<close> it puts \<open>new\<close> before every character
  and at the end.
\<close>

definition startswith :: "string \<Rightarrow> string \<Rightarrow> bool" where
  "startswith s p = prefix p s"

function str_replace :: "string \<Rightarrow> string \<Rightarrow> string \<Rightarrow> string" where
  "str_replace old new s =
     (if old = [] then new @ concat (map (\<lambda>c. c # new) s)
      else if s = [] then []
      else if prefix old s then new @ str_replace old new (drop (length old) s)
      else hd s # str_replace old new (tl s))"
  by pat_completeness auto
termination
  by (relation "measure (\<lambda>(old, new, s). length s)") auto

declare str_replace.simps [simp del]

definition upper_char :: "char \<Rightarrow> char" where
  "upper_char c =
     (case map_of (zip ''abcdefghijklmnopqrstuvwxyz'' ''ABCDEFGHIJKLMNOPQRSTUVWXYZ'') c of
        Some u \<Rightarrow> u
      | None \<Rightarrow> c)"

definition upper :: "string \<Rightarrow> string" where
  "upper s = map upper_char s"

text \<open>Decimal rendering of a natural number, and zero padding to two digits (\<open>%d\<close>, \<open>%H\<close>, ...).\<close>

definition digit_char :: "nat \<Rightarrow> char" where
  "digit_char n = ''0123456789'' ! n"

function str_nat :: "nat \<Rightarrow> string" where
  "str_nat n = (if n < 10 then [digit_char n] else str_nat (n div 10) @ [digit_char (n mod 10)])"
  by pat_completeness auto
termination
  by (relation "measure id") auto

declare str_nat.simps [simp del]

definition pad2 :: "nat \<Rightarrow> string" where
  "pad2 n = (if n < 10 then CHR ''0'' # str_nat n else str_nat n)"

section \<open>UUIDs\<close>

text \<open>
  \<open>uuid.uuid4()\<close> reads the operating system's random source. Its 128-bit value is an
  input of the model. \<open>.hex\<close> is the value as 32 lowercase hexadecimal digits, most
  significant first.
\<close>

type_synonym uuid = "128 word"

definition hex_digit :: "nat \<Rightarrow> char" where
  "hex_digit n = ''0123456789abcdef'' ! n"

definition nibble :: "uuid \<Rightarrow> nat \<Rightarrow> nat" where
  "nibble u i = unat (drop_bit (4 * (31 - i)) u AND 15)"

definition uuid_hex :: "uuid \<Rightarrow> string" where
  "uuid_hex u = map (\<lambda>i. hex_digit (nibble u i)) [0..<32]"

section \<open>Timestamps\<close>

text \<open>
  A \<open>datetime\<close> carries its wall-clock fields and an optional offset from UTC in minutes
  (\<open>tzinfo\<close>; \<open>None\<close> for a naive value). The fields lie in their calendar ranges, the
  month from 1 to 12. \<open>strftime\<close> prints the wall-clock fields as they are: \<open>%B\<close> the
  English name of the month, \<open>%Y\<close> the year in decimal, the other directives two digits;
  literal text of the format is copied.
\<close>

record datetime =
  year :: nat
  month :: nat
  day :: nat
  hour :: nat
  minute :: nat
  second :: nat
  microsecond :: nat
  tzinfo :: "int option"

definition month_names :: "string list" where
  "month_names = [''January'', ''February'', ''March'', ''April'', ''May'', ''June'', ''July'',
     ''August'', ''September'', ''October'', ''November'', ''December'']"

datatype fmt_item = Lit string | Dir_B | Dir_d | Dir_Y | Dir_H | Dir_M | Dir_S | Dir_m

fun fmt_directive :: "datetime \<Rightarrow> fmt_item \<Rightarrow> string" where
  "fmt_directive t (Lit s) = s"
| "fmt_directive t Dir_B = month_names ! (month t - 1)"
| "fmt_directive t Dir_d = pad2 (day t)"
| "fmt_directive t Dir_Y = str_nat (year t)"
| "fmt_directive t Dir_H = pad2 (hour t)"
| "fmt_directive t Dir_M = pad2 (minute t)"
| "fmt_directive t Dir_S = pad2 (second t)"
| "fmt_directive t Dir_m = pad2 (month t)"

definition strftime :: "datetime \<Rightarrow> fmt_item list \<Rightarrow> string" where
  "strftime t fmt = concat (map (fmt_directive t) fmt)"

section \<open>The file system\<close>

text \<open>
  The service stores its artifacts through \<open>os.path.join\<close>, \<open>os.path.exists\<close> and
  \<open>open\<close>. The file system is a map from canonical absolute paths (lists of names, the
  root being \<open>[]\<close>) to nodes, together with the working directory of the process.
  Path resolution follows POSIX: every component that is passed through must be a
  directory, \<open>..\<close> moves to the parent, an empty component and \<open>.\<close> stay in place.
  A path of \<open>PATH_MAX\<close> bytes or more and a component of more than \<open>NAME_MAX\<close> bytes are
  refused. The failures carry the error number of the system call.
\<close>

type_synonym bytes = string
type_synonym path = "string list"

datatype node = File bytes | Dir

record world =
  fs :: "path \<Rightarrow> node option"
  cwd :: path

fun split_on :: "char \<Rightarrow> string \<Rightarrow> string list" where
  "split_on c [] = [[]]"
| "split_on c (x # xs) =
     (if x = c then [] # split_on c xs
      else (case split_on c xs of
              [] \<Rightarrow> [[x]]
            | w # ws \<Rightarrow> (x # w) # ws))"

datatype errno = ENOENT | ENOTDIR | EISDIR | ENAMETOOLONG

definition NAME_MAX :: nat where "NAME_MAX = 255"
definition PATH_MAX :: nat where "PATH_MAX = 4096"

fun walk :: "(path \<Rightarrow> node option) \<Rightarrow> path \<Rightarrow> string list \<Rightarrow> errno + path" where
  "walk f cur [] = Inr cur"
| "walk f cur (c # cs) =
     (case f cur of
        None \<Rightarrow> Inl ENOENT
      | Some (File b) \<Rightarrow> Inl ENOTDIR
      | Some Dir \<Rightarrow>
          if c = [] \<or> c = ''.'' then walk f cur cs
          else if c = ''..'' then walk f (butlast cur) cs
          else if NAME_MAX < length c then Inl ENAMETOOLONG
          else walk f (cur @ [c]) cs)"

definition start_dir :: "world \<Rightarrow> string \<Rightarrow> path" where
  "start_dir w p = (if startswith p ''/'' then [] else cwd w)"

definition bad_path :: "string \<Rightarrow> bool" where
  "bad_path p = (p = [] \<or> CHR 0x00 \<in> set p \<or> PATH_MAX \<le> length p)"

text \<open>
  \<open>os.stat\<close> reaches the node at a path or fails; \<open>os.path.exists\<close> is false whenever it
  fails, for whatever reason.
\<close>

definition resolve :: "world \<Rightarrow> string \<Rightarrow> path option" where
  "resolve w p =
     (if bad_path p then None
      else (case walk (fs w) (start_dir w p) (split_on CHR ''/'' p) of
              Inl e \<Rightarrow> None
            | Inr q \<Rightarrow> Some q))"

definition os_path_join :: "string \<Rightarrow> string \<Rightarrow> string" where
  "os_path_join a b =
     (if startswith b ''/'' then b
      else if a = [] \<or> startswith (rev a) ''/'' then a @ b
      else a @ ''/'' @ b)"

definition os_path_exists :: "world \<Rightarrow> string \<Rightarrow> bool" where
  "os_path_exists w p = (case resolve w p of None \<Rightarrow> False | Some q \<Rightarrow> fs w q \<noteq> None)"

text \<open>
  The exceptions of the run-time system that the service meets: \<open>OSError\<close> with its
  error number and file name, \<open>ValueError\<close>, \<open>KeyError\<close>, \<open>IndexError\<close>, and any other
  exception of the rendering library.
\<close>

datatype exn =
    OSError errno string
  | ValueError string
  | KeyError string
  | IndexError string
  | Exception string

text \<open>
  \<open>open(p, 'wb')\<close> followed by writing \<open>data\<close> and closing: the parent of the last
  component must resolve to a directory, the name of the file must not be longer than
  \<open>NAME_MAX\<close> and the target must not be a directory; the file is created or truncated.
  (The service only opens paths that end in \<open>.pdf\<close>.)
\<close>

definition open_wb :: "world \<Rightarrow> string \<Rightarrow> bytes \<Rightarrow> exn + world" where
  "open_wb w p data =
     (if CHR 0x00 \<in> set p then Inl (ValueError ''embedded null byte'')
      else if p = [] then Inl (OSError ENOENT p)
      else if PATH_MAX \<le> length p then Inl (OSError ENAMETOOLONG p)
      else
        let comps = split_on CHR ''/'' p; name = last comps in
        if name = [] then
          (case walk (fs w) (start_dir w p) (butlast comps) of
             Inl e \<Rightarrow> Inl (OSError e p)
           | Inr d \<Rightarrow> Inl (OSError EISDIR p))
        else if name = ''.'' \<or> name = ''..'' then
          (case walk (fs w) (start_dir w p) comps of
             Inl e \<Rightarrow> Inl (OSError e p)
           | Inr d \<Rightarrow> Inl (OSError EISDIR p))
        else
          (case walk (fs w) (start_dir w p) (butlast comps) of
             Inl e \<Rightarrow> Inl (OSError e p)
           | Inr d \<Rightarrow>
               (case fs w d of
                  None \<Rightarrow> Inl (OSError ENOENT p)
                | Some (File b) \<Rightarrow> Inl (OSError ENOTDIR p)
                | Some Dir \<Rightarrow>
                    if NAME_MAX < length name then Inl (OSError ENAMETOOLONG p)
                    else if fs w (d @ [name]) = Some Dir then Inl (OSError EISDIR p)
                    else Inr (w\<lparr>fs := (fs w)(d @ [name] \<mapsto> File data)\<rparr>))))"

definition read_file :: "world \<Rightarrow> string \<Rightarrow> bytes option" where
  "read_file w p =
     (case resolve w p of
        None \<Rightarrow> None
      | Some q \<Rightarrow> (case fs w q of Some (File b) \<Rightarrow> Some b | _ \<Rightarrow> None))"

section \<open>Configuration and authorization\<close>

datatype http_error = HTTPException nat string

definition PDF_STORAGE_DIR :: string where
  "PDF_STORAGE_DIR = ''generated_pdfs''"

text \<open>\<open>API_KEY\<close> is read from the environment at start-up; it is a parameter of the model.\<close>

definition verify_api_key :: "string \<Rightarrow> string \<Rightarrow> http_error + string" where
  "verify_api_key API_KEY authorization =
     (if \<not> startswith authorization ''Bearer '' then
        Inl (HTTPException 401 ''Invalid authorization header format'')
      else
        let token = str_replace ''Bearer '' [] authorization in
        if token \<noteq> API_KEY then Inl (HTTPException 401 ''Invalid API key'')
        else Inr token)"

text \<open>
  \<open>Depends(verify_api_key)\<close> with \<open>Header(...)\<close>: the header is required, so a request
  without it is turned down by the framework's request validation (status 422) and
  \<open>verify_api_key\<close> is not called.
\<close>

definition depends_verify_api_key :: "string \<Rightarrow> string option \<Rightarrow> http_error + string" where
  "depends_verify_api_key API_KEY hdr =
     (case hdr of
        None \<Rightarrow> Inl (HTTPException 422 ''Field required'')
      | Some authorization \<Rightarrow> verify_api_key API_KEY authorization)"

section \<open>The drawing canvas\<close>

text \<open>
  The page decorator draws on a canvas of the rendering library. The canvas holds the
  current drawing state, the stack of saved states and the drawing operators emitted so
  far. \<open>saveState\<close> pushes the drawing state and \<open>restoreState\<close> pops it, raising on an
  empty stack. \<open>setFont\<close> assigns name, size and leading and then looks the font up; the
  fourteen standard fonts are always known, and for any other name the lookup raises. A
  call returns the exception it raised, if any, and the canvas as the call left it.
\<close>

datatype color = HexColor string | Black | White

definition VAULT_GREEN :: color where "VAULT_GREEN = HexColor ''#1e8449''"
definition VAULT_LIGHT_GREEN :: color where "VAULT_LIGHT_GREEN = HexColor ''#c8e6c9''"
definition VAULT_BLACK :: color where "VAULT_BLACK = Black"
definition VAULT_WHITE :: color where "VAULT_WHITE = White"
definition VAULT_GRAY :: color where "VAULT_GRAY = HexColor ''#f5f5f5''"

definition inch :: real where "inch = 72"

datatype xform = Translate real real | Rotate real

record gstate =
  fillColorObj :: color
  strokeColorObj :: color
  fontname :: string
  fontsize :: real
  leading :: real
  lineWidth :: real
  currentMatrix :: "xform list"

datatype draw_op =
    OpSave
  | OpRestore
  | OpFillColor color
  | OpStrokeColor color
  | OpFont string real real
  | OpLineWidth real
  | OpTranslate real real
  | OpRotate real
  | OpRect real real real real bool bool
  | OpString real real string
  | OpCentredString real real string

record canvas =
  state :: gstate
  stateStack :: "gstate list"
  code :: "draw_op list"

definition standardFonts :: "string list" where
  "standardFonts =
     [''Courier'', ''Courier-Bold'', ''Courier-Oblique'', ''Courier-BoldOblique'',
      ''Helvetica'', ''Helvetica-Bold'', ''Helvetica-Oblique'', ''Helvetica-BoldOblique'',
      ''Times-Roman'', ''Times-Bold'', ''Times-Italic'', ''Times-BoldItalic'',
      ''Symbol'', ''ZapfDingbats'']"

type_synonym canvas_call = "canvas \<Rightarrow> exn option \<times> canvas"

definition emit :: "draw_op \<Rightarrow> canvas \<Rightarrow> canvas" where
  "emit x c = c\<lparr>code := code c @ [x]\<rparr>"

definition saveState :: canvas_call where
  "saveState c = (None, emit OpSave (c\<lparr>stateStack := state c # stateStack c\<rparr>))"

definition restoreState :: canvas_call where
  "restoreState c =
     (case stateStack c of
        [] \<Rightarrow> (Some (IndexError ''pop from empty list''), c)
      | g # gs \<Rightarrow> (None, emit OpRestore (c\<lparr>state := g, stateStack := gs\<rparr>)))"

definition setFillColor :: "color \<Rightarrow> canvas_call" where
  "setFillColor col c = (None, emit (OpFillColor col) (c\<lparr>state := (state c)\<lparr>fillColorObj := col\<rparr>\<rparr>))"

definition setStrokeColor :: "color \<Rightarrow> canvas_call" where
  "setStrokeColor col c =
     (None, emit (OpStrokeColor col) (c\<lparr>state := (state c)\<lparr>strokeColorObj := col\<rparr>\<rparr>))"

definition setFont :: "string \<Rightarrow> real \<Rightarrow> canvas_call" where
  "setFont psfontname sz c =
     (let c' = c\<lparr>state := (state c)\<lparr>fontname := psfontname, fontsize := sz,
                                     leading := sz * 1.2\<rparr>\<rparr>
      in if psfontname \<notin> set standardFonts then (Some (KeyError psfontname), c')
         else (None, emit (OpFont psfontname sz (sz * 1.2)) c'))"

definition setLineWidth :: "real \<Rightarrow> canvas_call" where
  "setLineWidth wd c = (None, emit (OpLineWidth wd) (c\<lparr>state := (state c)\<lparr>lineWidth := wd\<rparr>\<rparr>))"

definition translate :: "real \<Rightarrow> real \<Rightarrow> canvas_call" where
  "translate dx dy c =
     (None, emit (OpTranslate dx dy)
        (c\<lparr>state := (state c)\<lparr>currentMatrix := currentMatrix (state c) @ [Translate dx dy]\<rparr>\<rparr>))"

definition rotate_canvas :: "real \<Rightarrow> canvas_call" where
  "rotate_canvas theta c =
     (None, emit (OpRotate theta)
        (c\<lparr>state := (state c)\<lparr>currentMatrix := currentMatrix (state c) @ [Rotate theta]\<rparr>\<rparr>))"

definition rect :: "real \<Rightarrow> real \<Rightarrow> real \<Rightarrow> real \<Rightarrow> bool \<Rightarrow> bool \<Rightarrow> canvas_call" where
  "rect x y wd ht fill stroke c = (None, emit (OpRect x y wd ht fill stroke) c)"

definition drawString :: "real \<Rightarrow> real \<Rightarrow> string \<Rightarrow> canvas_call" where
  "drawString x y txt c = (None, emit (OpString x y txt) c)"

definition drawCentredString :: "real \<Rightarrow> real \<Rightarrow> string \<Rightarrow> canvas_call" where
  "drawCentredString x y txt c = (None, emit (OpCentredString x y txt) c)"

text \<open>Statements in sequence: the first exception ends the run and is passed on.\<close>

fun run_calls :: "canvas_call list \<Rightarrow> canvas_call" where
  "run_calls [] c = (None, c)"
| "run_calls (f # rest) c =
     (case f c of
        (Some e, c') \<Rightarrow> (Some e, c')
      | (None, c') \<Rightarrow> run_calls rest c')"

section \<open>The page decorator\<close>

record doctemplate =
  width :: real
  height :: real
  leftMargin :: real
  rightMargin :: real
  topMargin :: real
  bottomMargin :: real

definition add_page_elements :: "datetime \<Rightarrow> canvas \<Rightarrow> doctemplate \<Rightarrow> exn option \<times> canvas" where
  "add_page_elements now canvas doc =
     run_calls
       [saveState,
        setFillColor VAULT_GREEN,
        rect 0 (height doc + topMargin doc - 0.5 * inch)
          (width doc + leftMargin doc + rightMargin doc) (0.5 * inch) True False,
        setFillColor VAULT_WHITE,
        setFont ''Helvetica-Bold'' 16,
        drawString (leftMargin doc) (height doc + topMargin doc - 0.3 * inch) ''VAULT'',
        setFont ''Helvetica-Bold'' 80,
        setFillColor VAULT_LIGHT_GREEN,
        saveState,
        translate (width doc / 2 + leftMargin doc) (height doc / 2),
        rotate_canvas 45,
        drawCentredString 0 0 ''VAULT'',
        restoreState,
        setFillColor VAULT_GREEN,
        rect 0 (bottomMargin doc - 0.4 * inch)
          (width doc + leftMargin doc + rightMargin doc) (0.3 * inch) True False,
        setFillColor VAULT_WHITE,
        setFont ''Helvetica'' 8,
        drawCentredString (width doc / 2 + leftMargin doc) (bottomMargin doc - 0.25 * inch)
          (''VAULT Financial | Transaction Record | Generated on '' @
             strftime now [Dir_Y, Lit ''-'', Dir_m, Lit ''-'', Dir_d, Lit '' '',
               Dir_H, Lit '':'', Dir_M, Lit '':'', Dir_S]),
        setStrokeColor VAULT_GREEN,
        setLineWidth 0.5,
        rect (leftMargin doc - 10) (bottomMargin doc - 0.5 * inch)
          (width doc + 20) (height doc + topMargin doc + 0.5 * inch) False True,
        restoreState]
       canvas"

section \<open>Requests, responses and document content\<close>

text \<open>
  \<open>AffidavitRequest\<close> after validation. Every field but \<open>notes\<close> is required; the
  class puts no constraint on the text fields. The amount is a floating-point number:
  its type is left open and its rendering by \<open>str\<close> is supplied by the backend.
\<close>

record 'f AffidavitRequest =
  sender :: string
  receiver :: string
  amount :: 'f
  currency :: string
  date :: datetime
  transactionId :: string
  "notes" :: "string option"

record AffidavitResponse =
  pdfUrl :: string
  filename :: string

datatype alignment = TA_LEFT | TA_CENTER | TA_RIGHT

record ParagraphStyle =
  style_name :: string
  parent :: string
  textColor :: "color option"
  fontSize :: real
  alignment :: "alignment option"
  spaceAfter :: real

type_synonym cell = "int \<times> int"

datatype table_cmd =
    BACKGROUND cell cell color
  | TEXTCOLOR cell cell color
  | ALIGN cell cell string
  | FONTNAME cell cell string
  | FONTSIZE cell cell real
  | BOTTOMPADDING cell cell real
  | TOPPADDING cell cell real
  | GRID cell cell real color
  | BOX cell cell real color

datatype flowable =
    Spacer real real
  | Paragraph string ParagraphStyle
  | Table "string list list" "real list" "table_cmd list"

type_synonym page_callback = "datetime \<Rightarrow> canvas \<Rightarrow> doctemplate \<Rightarrow> exn option \<times> canvas"

text \<open>
  The collaborators outside the repository: \<open>str\<close> on a float and on an exception,
  and the document builder, which paginates the content, calls the page callback on
  every page with the clock reading of that moment, and returns the bytes of the
  document or the exception that ended the build.
\<close>

record 'f backend =
  float_str :: "'f \<Rightarrow> string"
  exn_str :: "exn \<Rightarrow> string"
  doc_build :: "doctemplate \<Rightarrow> flowable list \<Rightarrow> page_callback \<Rightarrow> exn + bytes"

definition SimpleDocTemplate :: "real \<times> real \<Rightarrow> real \<Rightarrow> real \<Rightarrow> real \<Rightarrow> real \<Rightarrow> doctemplate" where
  "SimpleDocTemplate pagesize rightM leftM topM bottomM =
     \<lparr>width = fst pagesize - leftM - rightM, height = snd pagesize - topM - bottomM,
      leftMargin = leftM, rightMargin = rightM, topMargin = topM, bottomMargin = bottomM\<rparr>"

definition letter :: "real \<times> real" where
  "letter = (8.5 * inch, 11 * inch)"

definition title_style :: ParagraphStyle where
  "title_style = \<lparr>style_name = ''VaultTitle'', parent = ''Heading1'',
     textColor = Some VAULT_GREEN, fontSize = 16, alignment = Some TA_CENTER, spaceAfter = 12\<rparr>"

definition subtitle_style :: ParagraphStyle where
  "subtitle_style = \<lparr>style_name = ''VaultSubtitle'', parent = ''Heading2'',
     textColor = Some VAULT_BLACK, fontSize = 14, alignment = Some TA_CENTER, spaceAfter = 12\<rparr>"

definition normal_style :: ParagraphStyle where
  "normal_style = \<lparr>style_name = ''VaultNormal'', parent = ''Normal'',
     textColor = None, fontSize = 10, alignment = None, spaceAfter = 6\<rparr>"

definition transaction_date :: "datetime \<Rightarrow> string" where
  "transaction_date d =
     strftime d [Dir_B, Lit '' '', Dir_d, Lit '', '', Dir_Y, Lit '' at '',
       Dir_H, Lit '':'', Dir_M, Lit '':'', Dir_S, Lit '' UTC'']"

text \<open>\<open>if data.notes\<close>: \<open>None\<close> and the empty string are both false.\<close>

definition truthy :: "string option \<Rightarrow> bool" where
  "truthy x = (case x of None \<Rightarrow> False | Some s \<Rightarrow> s \<noteq> [])"

definition transaction_data :: "'f backend \<Rightarrow> 'f AffidavitRequest \<Rightarrow> string list list" where
  "transaction_data B data =
     (let rows =
        [[''Transaction ID'', ''#'' @ transactionId data],
         [''Date'', transaction_date (date data)],
         [''Sender'', sender data],
         [''Receiver'', receiver data],
         [''Amount'', float_str B (amount data) @ '' '' @ currency data]]
      in if truthy (notes data) then rows @ [[''Notes'', the (notes data)]] else rows)"

definition transaction_table_style :: "table_cmd list" where
  "transaction_table_style =
     [BACKGROUND (0, 0) (0, -1) VAULT_GREEN,
      TEXTCOLOR (0, 0) (0, -1) VAULT_WHITE,
      ALIGN (0, 0) (0, -1) ''LEFT'',
      FONTNAME (0, 0) (0, -1) ''Helvetica-Bold'',
      FONTSIZE (0, 0) (0, -1) 10,
      BOTTOMPADDING (0, 0) (-1, -1) 10,
      TOPPADDING (0, 0) (-1, -1) 10,
      BACKGROUND (1, 0) (1, -1) VAULT_WHITE,
      TEXTCOLOR (1, 0) (1, -1) VAULT_BLACK,
      FONTNAME (1, 0) (1, -1) ''Helvetica'',
      GRID (0, 0) (-1, -1) 0.5 VAULT_GREEN,
      BOX (0, 0) (-1, -1) 1 VAULT_GREEN]"

definition verification_data :: "uuid \<Rightarrow> string list list" where
  "verification_data u =
     [[''Verification Status:'', ''VERIFIED''],
      [''Security Hash:'', upper (take 12 (uuid_hex u))],
      [''Platform:'', ''VAULT Financial'']]"

definition verification_table_style :: "table_cmd list" where
  "verification_table_style =
     [BACKGROUND (0, 0) (0, -1) VAULT_LIGHT_GREEN,
      TEXTCOLOR (0, 0) (0, -1) VAULT_BLACK,
      ALIGN (0, 0) (0, -1) ''LEFT'',
      FONTNAME (0, 0) (0, -1) ''Helvetica-Bold'',
      BACKGROUND (1, 0) (1, -1) VAULT_WHITE,
      TEXTCOLOR (1, 0) (1, 0) VAULT_GREEN,
      FONTNAME (1, 0) (1, 0) ''Helvetica-Bold'',
      BOX (0, 0) (-1, -1) 0.5 VAULT_GREEN,
      GRID (0, 0) (-1, -1) 0.5 VAULT_LIGHT_GREEN]"

text \<open>
  The list \<open>elements\<close> of \<open>create_affidavit_pdf\<close>, in the order of its \<open>append\<close> calls.
  \<open>now\<close> is the clock reading and \<open>u\<close> the UUID drawn while the list is built.
\<close>

definition elements :: "'f backend \<Rightarrow> datetime \<Rightarrow> uuid \<Rightarrow> 'f AffidavitRequest \<Rightarrow> flowable list" where
  "elements B now u data =
     [Spacer 1 (0.25 * inch),
      Paragraph ''TRANSACTION AFFIDAVIT'' title_style,
      Spacer 1 (0.25 * inch),
      Paragraph (''This document certifies that a transaction has been securely recorded on the '' @
                 ''VAULT Financial platform with the following details:'') normal_style,
      Spacer 1 (0.25 * inch),
      Table (transaction_data B data) [2 * inch, 3.5 * inch] transaction_table_style,
      Spacer 1 (0.4 * inch),
      Paragraph (''This affidavit certifies that the above transaction has been securely recorded in the VAULT '' @
                 ''system. This document serves as an official record of the transaction.'') normal_style,
      Spacer 1 (0.2 * inch),
      Paragraph (''Digitally verified and generated on '' @
                 strftime now [Dir_B, Lit '' '', Dir_d, Lit '', '', Dir_Y, Lit '' at '',
                   Dir_H, Lit '':'', Dir_M, Lit '':'', Dir_S] @ ''.'') normal_style,
      Spacer 1 (0.3 * inch),
      Table (verification_data u) [2 * inch, 3.5 * inch] verification_table_style]"

definition create_affidavit_pdf ::
  "'f backend \<Rightarrow> datetime \<Rightarrow> uuid \<Rightarrow> world \<Rightarrow> string \<Rightarrow> 'f AffidavitRequest \<Rightarrow> exn + world" where
  "create_affidavit_pdf B now u w filepath data =
     (let doc = SimpleDocTemplate letter 72 72 90 72 in
      case doc_build B doc (elements B now u data) add_page_elements of
        Inl e \<Rightarrow> Inl e
      | Inr pdf \<Rightarrow> open_wb w filepath pdf)"

section \<open>The two operations\<close>

text \<open>
  A call of Generate draws two UUIDs, \<open>u1\<close> for the file name and \<open>u2\<close> for the security
  hash, and reads the clock (\<open>now\<close>). Both operations return their result and the world
  they leave behind.
\<close>

definition generate_filename :: "'f AffidavitRequest \<Rightarrow> uuid \<Rightarrow> string" where
  "generate_filename request u1 =
     ''VAULT_Affidavit_'' @ transactionId request @ ''_'' @ take 8 (uuid_hex u1) @ ''.pdf''"

definition generate_affidavit ::
  "'f backend \<Rightarrow> uuid \<Rightarrow> uuid \<Rightarrow> datetime \<Rightarrow> world \<Rightarrow> 'f AffidavitRequest \<Rightarrow> string
     \<Rightarrow> (http_error + AffidavitResponse) \<times> world" where
  "generate_affidavit B u1 u2 now w request api_key =
     (let fname = generate_filename request u1;
          filepath = os_path_join PDF_STORAGE_DIR fname
      in case create_affidavit_pdf B now u2 w filepath request of
           Inl e \<Rightarrow> (Inl (HTTPException 500 (''PDF generation failed: '' @ exn_str B e)), w)
         | Inr w' \<Rightarrow> (Inr \<lparr>pdfUrl = ''/download-affidavit/'' @ fname, filename = fname\<rparr>, w'))"

datatype file_response = FileResponse string string string

definition download_affidavit :: "world \<Rightarrow> string \<Rightarrow> string \<Rightarrow> http_error + file_response" where
  "download_affidavit w fname api_key =
     (let filepath = os_path_join PDF_STORAGE_DIR fname in
      if \<not> os_path_exists w filepath then Inl (HTTPException 404 ''PDF not found'')
      else Inr (FileResponse filepath ''application/pdf'' fname))"

text \<open>
  Sending a \<open>FileResponse\<close> streams the bytes of the regular file at its path; anything
  else at that path is a server error.
\<close>

fun send_file :: "world \<Rightarrow> file_response \<Rightarrow> http_error + bytes" where
  "send_file w (FileResponse p media_type fname) =
     (case read_file w p of
        None \<Rightarrow> Inl (HTTPException 500 ''Internal Server Error'')
      | Some b \<Rightarrow> Inr b)"

text \<open>
  The routes. The path parameter \<open>{filename}\<close> of the download route stands for one
  non-empty path segment: a request whose filename is empty or holds a \<open>/\<close> matches no
  route and is answered by the router. On a matching route the dependency runs first,
  the handler only after it returned a key.
\<close>

definition route_matches :: "string \<Rightarrow> bool" where
  "route_matches fname = (fname \<noteq> [] \<and> CHR ''/'' \<notin> set fname)"

definition post_generate_affidavit ::
  "string \<Rightarrow> 'f backend \<Rightarrow> uuid \<Rightarrow> uuid \<Rightarrow> datetime \<Rightarrow> string option \<Rightarrow> 'f AffidavitRequest \<Rightarrow> world
     \<Rightarrow> (http_error + AffidavitResponse) \<times> world" where
  "post_generate_affidavit API_KEY B u1 u2 now hdr request w =
     (case depends_verify_api_key API_KEY hdr of
        Inl e \<Rightarrow> (Inl e, w)
      | Inr api_key \<Rightarrow> generate_affidavit B u1 u2 now w request api_key)"

definition get_download_affidavit ::
  "string \<Rightarrow> string option \<Rightarrow> string \<Rightarrow> world \<Rightarrow> (http_error + bytes) \<times> world" where
  "get_download_affidavit API_KEY hdr fname w =
     (if \<not> route_matches fname then (Inl (HTTPException 404 ''Not Found''), w)
      else
        (case depends_verify_api_key API_KEY hdr of
           Inl e \<Rightarrow> (Inl e, w)
         | Inr api_key \<Rightarrow>
             (case download_affidavit w fname api_key of
                Inl e \<Rightarrow> (Inl e, w)
              | Inr r \<Rightarrow> (send_file w r, w))))"

section \<open>Sequences of Generate calls\<close>



section \<open>The specification's reading of a timestamp\<close>

text \<open>
  The specification labels the displayed transaction time as UTC: the time of day, in
  UTC, of the instant a timestamp denotes, a naive timestamp being taken as UTC. It is
  given as hours, minutes and seconds.
\<close>

definition utc_time_of_day :: "datetime \<Rightarrow> int \<times> int \<times> int" where
  "utc_time_of_day d =
     (let off = (case tzinfo d of None \<Rightarrow> 0 | Some m \<Rightarrow> m);
          s = (int (hour d) * 3600 + int (minute d) * 60 + int (second d) - off * 60) mod 86400
      in (s div 3600, s mod 3600 div 60, s mod 60))"

section \<open>Example inputs\<close>

definition example_date :: datetime where
  "example_date = \<lparr>year = 2024, month = 1, day = 15, hour = 10, minute = 30, second = 0,
     microsecond = 0, tzinfo = Some 0\<rparr>"

definition example_date_offset :: datetime where
  "example_date_offset = example_date\<lparr>tzinfo := Some 330\<rparr>"

definition example_now :: datetime where
  "example_now = \<lparr>year = 2024, month = 1, day = 16, hour = 8, minute = 0, second = 5,
     microsecond = 0, tzinfo = None\<rparr>"

definition example_request :: "real AffidavitRequest" where
  "example_request = \<lparr>sender = ''Alice'', receiver = ''Bob'', amount = 100.5, currency = ''USD'',
     date = example_date, transactionId = ''TX123'', notes = None\<rparr>"

definition blank_canvas :: canvas where
  "blank_canvas =
     \<lparr>state = \<lparr>fillColorObj = Black, strokeColorObj = Black, fontname = ''Helvetica'',
                fontsize = 12, leading = 14.4, lineWidth = 1, currentMatrix = []\<rparr>,
      stateStack = [], code = []\<rparr>"

definition example_doc :: doctemplate where
  "example_doc = SimpleDocTemplate letter 72 72 90 72"

fun flowable_text :: "flowable \<Rightarrow> string" where
  "flowable_text (Spacer a b) = []"
| "flowable_text (Paragraph txt sty) = txt"
| "flowable_text (Table rows widths sty) = concat (concat rows)"

text \<open>
  A builder that lays everything out on one page, decorates that page and returns the
  text of the content as the bytes of the document.
\<close>

definition example_build :: "doctemplate \<Rightarrow> flowable list \<Rightarrow> page_callback \<Rightarrow> exn + bytes" where
  "example_build doc els cb =
     (case cb example_now blank_canvas doc of
        (Some e, c) \<Rightarrow> Inl e
      | (None, c) \<Rightarrow> Inr (''%PDF'' @ concat (map flowable_text els)))"

definition example_backend :: "real backend" where
  "example_backend =
     \<lparr>float_str = (\<lambda>x. if x = 100.5 then ''100.5'' else ''0.0''),
      exn_str = (\<lambda>e. ''error''), doc_build = example_build\<rparr>"

definition example_world :: world where
  "example_world =
     \<lparr>fs = [[] \<mapsto> Dir, [''srv''] \<mapsto> Dir, [''srv'', ''generated_pdfs''] \<mapsto> Dir,
             [''srv'', ''app.py''] \<mapsto> File ''import os'',
             [''srv'', ''.env''] \<mapsto> File ''API_KEY=s3cret''],
      cwd = [''srv'']\<rparr>"

definition example_uuid :: uuid where
  "example_uuid = 0x0000002a000000000000000000000000"

definition example_uuid' :: uuid where
  "example_uuid' = 0x0000002a000000000000000000000001"

definition example_uuid2 :: uuid where
  "example_uuid2 = 0x1b2c3d4e5f60718293a4b5c6d7e8f901"

definition example_pdf :: "uuid \<Rightarrow> real AffidavitRequest \<Rightarrow> bytes" where
  "example_pdf u2 request =
     ''%PDF'' @ concat (map flowable_text (elements example_backend example_now u2 request))"

definition escape_world :: world where
  "escape_world =
     example_world\<lparr>fs := (fs example_world)
       ([''srv'', ''generated_pdfs'', ''VAULT_Affidavit_x''] \<mapsto> Dir)\<rparr>"


section \<open>Properties\<close>

subsection \<open>Hexadecimal digits\<close>

lemma nibble_less: "nibble u i < 16"
proof -
  have "unat (drop_bit (4 * (31 - i)) u AND 15) \<le> unat (15 :: uuid)"
    by (rule word_and_le1 [THEN word_le_nat_alt [THEN iffD1]])
  then show ?thesis by (simp add: nibble_def)
qed

lemma hex_digit_mem: "n < 16 \<Longrightarrow> hex_digit n \<in> set ''0123456789abcdef''"
  unfolding hex_digit_def by (rule nth_mem) simp

lemma length_uuid_hex: "length (uuid_hex u) = 32"
  by (simp add: uuid_hex_def)

lemma set_uuid_hex: "set (uuid_hex u) \<subseteq> set ''0123456789abcdef''"
proof
  fix c assume "c \<in> set (uuid_hex u)"
  then obtain i where "c = hex_digit (nibble u i)"
    unfolding uuid_hex_def by (auto simp only: set_map)
  then show "c \<in> set ''0123456789abcdef''"
    using hex_digit_mem [OF nibble_less] by simp
qed


subsection \<open>The verification table\<close>


lemma security_hash_length: "length (upper (take 12 (uuid_hex u))) = 12"
  by (simp add: upper_def length_uuid_hex)



subsection \<open>The transaction detail table\<close>




subsection \<open>Authorization\<close>

lemma example_key_valid: "depends_verify_api_key ''s3cret'' (Some ''Bearer s3cret'') = Inr ''s3cret''"
  by code_simp

text \<open>
  A request on either route whose credential is turned down gets the error of the
  dependency, whatever the backend and the world are, and the world is left as it was:
  the handlers, and with them document composition and storage, are not reached.
\<close>

lemma rejected_request_has_no_effect:
  assumes "depends_verify_api_key K hdr = Inl e"
  shows "post_generate_affidavit K B u1 u2 now hdr request w = (Inl e, w)"
    and "route_matches fname \<Longrightarrow> get_download_affidavit K hdr fname w = (Inl e, w)"
  using assms by (simp_all add: post_generate_affidavit_def get_download_affidavit_def)

text \<open>
  Claim C1. A credential is to be accepted only when it equals the configured secret.
  \<open>verify_api_key\<close> deletes every occurrence of \<open>Bearer \<close> from the header, not only the
  leading one, so a header whose credential is \<open>Bearer your-development-api-key\<close>, which
  differs from the secret \<open>your-development-api-key\<close>, is accepted.
\<close>

theorem repeated_prefix_accepted:
  "depends_verify_api_key ''your-development-api-key''
      (Some (''Bearer '' @ ''Bearer your-development-api-key'')) = Inr ''your-development-api-key''
   \<and> ''Bearer your-development-api-key'' \<noteq> ''your-development-api-key''"
  by code_simp

subsection \<open>The displayed transaction date\<close>

text \<open>
  Claim C8. The Date row is to show the UTC time of the instant. \<open>transaction_date\<close>
  prints the wall-clock fields of the timestamp as they are and appends \<open>UTC\<close>: a
  timestamp of 10:30:00 at offset +05:30, whose UTC time is 05:00:00, is shown as
  10:30:00 UTC.
\<close>

theorem transaction_date_ignores_offset:
  "transaction_date example_date_offset = ''January 15, 2024 at 10:30:00 UTC''
   \<and> tzinfo example_date_offset = Some 330
   \<and> utc_time_of_day example_date_offset = (5, 0, 0)"
  by (simp add: transaction_date_def strftime_def example_date_offset_def example_date_def
      month_names_def pad2_def str_nat.simps digit_char_def utc_time_of_day_def)

subsection \<open>The page decorator\<close>

lemma helvetica_standard:
  "''Helvetica'' \<in> set standardFonts" "''Helvetica-Bold'' \<in> set standardFonts"
  by (simp_all add: standardFonts_def)

lemma setFont_standard:
  "psfontname \<in> set standardFonts \<Longrightarrow>
     setFont psfontname sz c =
       (None, emit (OpFont psfontname sz (sz * 1.2))
          (c\<lparr>state := (state c)\<lparr>fontname := psfontname, fontsize := sz, leading := sz * 1.2\<rparr>\<rparr>))"
  by (simp add: setFont_def Let_def)

lemmas canvas_defs =
  saveState_def restoreState_def setFillColor_def setStrokeColor_def
  setFont_standard [OF helvetica_standard(1)] setFont_standard [OF helvetica_standard(2)]
  setLineWidth_def translate_def rotate_canvas_def rect_def drawString_def
  drawCentredString_def emit_def

lemma run_calls_append:
  "run_calls (xs @ ys) c =
     (case run_calls xs c of (Some e, c') \<Rightarrow> (Some e, c') | (None, c') \<Rightarrow> run_calls ys c')"
  by (induction xs arbitrary: c) (auto split: prod.splits option.splits)

lemma run_calls_kept:
  assumes "\<forall>f \<in> set calls. \<forall>c. \<exists>c'. f c = (None, c') \<and> stateStack c' = stateStack c
              \<and> prefix (code c) (code c')"
  shows "\<exists>c'. run_calls calls c = (None, c') \<and> stateStack c' = stateStack c
              \<and> prefix (code c) (code c')"
  using assms
proof (induction calls arbitrary: c)
  case Nil
  then show ?case by simp
next
  case (Cons f rest)
  from Cons.prems obtain c1 where f: "f c = (None, c1)" and s1: "stateStack c1 = stateStack c"
    and p1: "prefix (code c) (code c1)"
    by (metis list.set_intros(1))
  from Cons.prems have "\<forall>g \<in> set rest. \<forall>c. \<exists>c'. g c = (None, c') \<and> stateStack c' = stateStack c
              \<and> prefix (code c) (code c')"
    by simp
  from Cons.IH [OF this, of c1] obtain c2 where r: "run_calls rest c1 = (None, c2)"
    and s2: "stateStack c2 = stateStack c1" and p2: "prefix (code c1) (code c2)"
    by blast
  from f r have "run_calls (f # rest) c = (None, c2)" by simp
  moreover from s1 s2 have "stateStack c2 = stateStack c" by simp
  moreover from p1 p2 have "prefix (code c) (code c2)" by (rule prefix_order.trans)
  ultimately show ?case by blast
qed

lemma watermark_kept:
  "\<exists>c'. run_calls [saveState, translate dx dy, rotate_canvas th, drawCentredString x y txt,
           restoreState] c = (None, c')
        \<and> stateStack c' = stateStack c \<and> prefix (code c) (code c')"
  by (simp add: canvas_defs)

lemma drawing_calls_kept:
  "\<exists>c'. setFillColor col c = (None, c') \<and> stateStack c' = stateStack c \<and> prefix (code c) (code c')"
  "\<exists>c'. setStrokeColor col c = (None, c') \<and> stateStack c' = stateStack c \<and> prefix (code c) (code c')"
  "\<exists>c'. setFont ''Helvetica'' sz c = (None, c') \<and> stateStack c' = stateStack c \<and> prefix (code c) (code c')"
  "\<exists>c'. setFont ''Helvetica-Bold'' sz c = (None, c') \<and> stateStack c' = stateStack c \<and> prefix (code c) (code c')"
  "\<exists>c'. setLineWidth wd c = (None, c') \<and> stateStack c' = stateStack c \<and> prefix (code c) (code c')"
  "\<exists>c'. rect x y a b fill stroke c = (None, c') \<and> stateStack c' = stateStack c \<and> prefix (code c) (code c')"
  "\<exists>c'. drawString x y txt c = (None, c') \<and> stateStack c' = stateStack c \<and> prefix (code c) (code c')"
  "\<exists>c'. drawCentredString x y txt c = (None, c') \<and> stateStack c' = stateStack c \<and> prefix (code c) (code c')"
  by (simp_all add: canvas_defs)

lemma run_calls_block:
  "run_calls (xs @ run_calls ys # zs) c = run_calls (xs @ ys @ zs) c"
proof -
  have h: "run_calls (run_calls ys # zs) c' = run_calls (ys @ zs) c'" for c'
    by (simp add: run_calls_append)
  show ?thesis
    unfolding run_calls_append [of xs] h ..
qed

lemma add_page_elements_block:
  "add_page_elements now canvas doc =
     run_calls
       ([saveState,
         setFillColor VAULT_GREEN,
         rect 0 (height doc + topMargin doc - 0.5 * inch)
           (width doc + leftMargin doc + rightMargin doc) (0.5 * inch) True False,
         setFillColor VAULT_WHITE,
         setFont ''Helvetica-Bold'' 16,
         drawString (leftMargin doc) (height doc + topMargin doc - 0.3 * inch) ''VAULT'',
         setFont ''Helvetica-Bold'' 80,
         setFillColor VAULT_LIGHT_GREEN] @
        run_calls [saveState,
           translate (width doc / 2 + leftMargin doc) (height doc / 2),
           rotate_canvas 45,
           drawCentredString 0 0 ''VAULT'',
           restoreState] #
        [setFillColor VAULT_GREEN,
         rect 0 (bottomMargin doc - 0.4 * inch)
           (width doc + leftMargin doc + rightMargin doc) (0.3 * inch) True False,
         setFillColor VAULT_WHITE,
         setFont ''Helvetica'' 8,
         drawCentredString (width doc / 2 + leftMargin doc) (bottomMargin doc - 0.25 * inch)
           (''VAULT Financial | Transaction Record | Generated on '' @
              strftime now [Dir_Y, Lit ''-'', Dir_m, Lit ''-'', Dir_d, Lit '' '',
                Dir_H, Lit '':'', Dir_M, Lit '':'', Dir_S]),
         setStrokeColor VAULT_GREEN,
         setLineWidth 0.5,
         rect (leftMargin doc - 10) (bottomMargin doc - 0.5 * inch)
           (width doc + 20) (height doc + topMargin doc + 0.5 * inch) False True,
         restoreState])
       canvas"
  unfolding add_page_elements_def run_calls_block
  by (simp only: append.simps)

lemma add_page_elements_ok:
  "\<exists>c'. add_page_elements now c doc = (None, c')
         \<and> state c' = state c \<and> stateStack c' = stateStack c \<and> prefix (code c) (code c')"
proof -
  let ?mid = "[setFillColor VAULT_GREEN,
         rect 0 (height doc + topMargin doc - 0.5 * inch)
           (width doc + leftMargin doc + rightMargin doc) (0.5 * inch) True False,
         setFillColor VAULT_WHITE,
         setFont ''Helvetica-Bold'' 16,
         drawString (leftMargin doc) (height doc + topMargin doc - 0.3 * inch) ''VAULT'',
         setFont ''Helvetica-Bold'' 80,
         setFillColor VAULT_LIGHT_GREEN,
         run_calls [saveState,
           translate (width doc / 2 + leftMargin doc) (height doc / 2),
           rotate_canvas 45,
           drawCentredString 0 0 ''VAULT'',
           restoreState],
         setFillColor VAULT_GREEN,
         rect 0 (bottomMargin doc - 0.4 * inch)
           (width doc + leftMargin doc + rightMargin doc) (0.3 * inch) True False,
         setFillColor VAULT_WHITE,
         setFont ''Helvetica'' 8,
         drawCentredString (width doc / 2 + leftMargin doc) (bottomMargin doc - 0.25 * inch)
           (''VAULT Financial | Transaction Record | Generated on '' @
              strftime now [Dir_Y, Lit ''-'', Dir_m, Lit ''-'', Dir_d, Lit '' '',
                Dir_H, Lit '':'', Dir_M, Lit '':'', Dir_S]),
         setStrokeColor VAULT_GREEN,
         setLineWidth 0.5,
         rect (leftMargin doc - 10) (bottomMargin doc - 0.5 * inch)
           (width doc + 20) (height doc + topMargin doc + 0.5 * inch) False True]"
  have shape: "add_page_elements now c doc = run_calls (saveState # (?mid @ [restoreState])) c"
    unfolding add_page_elements_block by (simp only: append.simps)
  let ?c1 = "emit OpSave (c\<lparr>stateStack := state c # stateStack c\<rparr>)"
  have kept: "\<forall>f \<in> set ?mid. \<forall>c. \<exists>c'. f c = (None, c') \<and> stateStack c' = stateStack c
              \<and> prefix (code c) (code c')"
    by (simp only: list.set ball_simps simp_thms drawing_calls_kept watermark_kept)
  from run_calls_kept [OF kept, of ?c1] obtain c2 where
    m: "run_calls ?mid ?c1 = (None, c2)" and s2: "stateStack c2 = stateStack ?c1"
    and p2: "prefix (code ?c1) (code c2)"
    by blast
  let ?c3 = "emit OpRestore (c2\<lparr>state := state c, stateStack := stateStack c\<rparr>)"
  have s2': "stateStack c2 = state c # stateStack c" using s2 by (simp add: emit_def)
  have "run_calls (saveState # (?mid @ [restoreState])) c = run_calls (?mid @ [restoreState]) ?c1"
    by (simp only: run_calls.simps(2) saveState_def prod.case option.case)
  also have "\<dots> = run_calls [restoreState] c2"
    unfolding run_calls_append [of ?mid] m by (simp only: prod.case option.case)
  also have "\<dots> = (None, ?c3)"
    using s2' by (simp add: restoreState_def)
  finally have "run_calls (saveState # (?mid @ [restoreState])) c = (None, ?c3)" .
  moreover have "state ?c3 = state c" "stateStack ?c3 = stateStack c" by (simp_all add: emit_def)
  moreover have "prefix (code c) (code ?c3)"
  proof -
    have "prefix (code c) (code ?c1)" by (simp add: emit_def)
    then have "prefix (code c) (code c2)" using p2 by (rule prefix_order.trans)
    then show ?thesis by (auto simp: emit_def prefix_def)
  qed
  ultimately show ?thesis unfolding shape by blast
qed

text \<open>
  Claim C10. The decorator saves the drawing context first and restores it last. Every
  call in between succeeds on every canvas: the two fonts it sets are standard fonts and
  the inner restore follows its own save. So the decorator has no exit but the normal
  one, and there the drawing state (colours, font, leading, line width, transform) and
  the stack of saved states are exactly what they were on entry; the drawing operators
  emitted before are kept and the decoration is appended to them.
\<close>

theorem decorator_restores_state:
  "\<exists>c'. add_page_elements now c doc = (None, c')
         \<and> state c' = state c \<and> stateStack c' = stateStack c \<and> prefix (code c) (code c')"
  by (rule add_page_elements_ok)

subsection \<open>Paths\<close>

lemma split_on_not_Nil: "split_on c s \<noteq> []"
  by (induction s) (auto split: list.splits)

lemma split_on_no_sep: "c \<notin> set s \<Longrightarrow> split_on c s = [s]"
  by (induction s) auto


lemma walk_Cons_Inr: "walk f cur (c # cs) = Inr d \<Longrightarrow> f cur = Some Dir"
  by (auto split: option.splits node.splits)

lemma walk_append:
  "walk f cur (cs @ ds) = (case walk f cur cs of Inl e \<Rightarrow> Inl e | Inr d \<Rightarrow> walk f d ds)"
  by (induction cs arbitrary: cur) (auto split: option.splits node.splits)

lemma walk_upd_file:
  "walk f cur cs = Inr d \<Longrightarrow> f q \<noteq> Some Dir \<Longrightarrow> walk (f(q \<mapsto> File b)) cur cs = Inr d"
proof (induction cs arbitrary: cur)
  case Nil
  then show ?case by simp
next
  case (Cons c cs)
  from walk_Cons_Inr [OF Cons.prems(1)] have dir: "f cur = Some Dir" .
  with Cons.prems(2) have "cur \<noteq> q" by auto
  with dir have dir': "(f(q \<mapsto> File b)) cur = Some Dir" by simp
  show ?case
    using Cons.prems dir dir' Cons.IH by (auto split: if_splits)
qed

lemma join_storage_relative:
  "\<not> startswith fname ''/'' \<Longrightarrow> os_path_join PDF_STORAGE_DIR fname = ''generated_pdfs'' @ CHR ''/'' # fname"
  by (simp add: os_path_join_def PDF_STORAGE_DIR_def startswith_def)

lemma storage_path_props:
  "\<not> startswith (''generated_pdfs'' @ CHR ''/'' # fname) ''/''"
  "split_on CHR ''/'' (''generated_pdfs'' @ CHR ''/'' # fname) = ''generated_pdfs'' # split_on CHR ''/'' fname"
  by (simp_all add: startswith_def)

lemma storage_path_bad:
  "bad_path (''generated_pdfs'' @ CHR ''/'' # fname)
     = (CHR 0x00 \<in> set fname \<or> PATH_MAX \<le> length fname + 15)"
proof -
  have len: "length (''generated_pdfs'' @ CHR ''/'' # fname) = length fname + 15" by simp
  show ?thesis unfolding bad_path_def len by simp
qed

subsection \<open>Writing and reading files\<close>

lemma start_dir_fs_update: "start_dir (w\<lparr>fs := g\<rparr>) p = start_dir w p"
  by (simp add: start_dir_def)

lemma open_wb_InrD:
  assumes "open_wb w p b = Inr w'"
  shows "\<exists>d. \<not> bad_path p
           \<and> last (split_on CHR ''/'' p) \<notin> {[], ''.'', ''..''}
           \<and> length (last (split_on CHR ''/'' p)) \<le> NAME_MAX
           \<and> walk (fs w) (start_dir w p) (butlast (split_on CHR ''/'' p)) = Inr d
           \<and> fs w d = Some Dir
           \<and> fs w (d @ [last (split_on CHR ''/'' p)]) \<noteq> Some Dir
           \<and> w' = w\<lparr>fs := (fs w)(d @ [last (split_on CHR ''/'' p)] \<mapsto> File b)\<rparr>"
  using assms
  by (auto simp: open_wb_def bad_path_def Let_def
      split: if_splits sum.splits option.splits node.splits)

lemma open_wb_then_resolve:
  assumes "open_wb w p b = Inr w'"
  shows "\<exists>q. resolve w' p = Some q \<and> fs w' q = Some (File b)"
proof -
  let ?cs = "split_on CHR ''/'' p"
  let ?n = "last ?cs"
  from open_wb_InrD [OF assms] obtain d where
    ok: "\<not> bad_path p" and n: "?n \<notin> {[], ''.'', ''..''}" and len: "length ?n \<le> NAME_MAX"
    and wk: "walk (fs w) (start_dir w p) (butlast ?cs) = Inr d"
    and d: "fs w d = Some Dir" and t: "fs w (d @ [?n]) \<noteq> Some Dir"
    and w': "w' = w\<lparr>fs := (fs w)(d @ [?n] \<mapsto> File b)\<rparr>"
    by blast
  let ?f' = "(fs w)(d @ [?n] \<mapsto> File b)"
  have cs: "?cs = butlast ?cs @ [?n]"
    using split_on_not_Nil [of "CHR ''/''" p] by simp
  have "walk ?f' (start_dir w p) (butlast ?cs) = Inr d"
    by (rule walk_upd_file [OF wk t])
  moreover have "?f' d = Some Dir" using d by simp
  ultimately have "walk ?f' (start_dir w p) (butlast ?cs @ [?n]) = Inr (d @ [?n])"
    using n len by (simp add: walk_append)
  then have "walk ?f' (start_dir w p) ?cs = Inr (d @ [?n])"
    using cs by simp
  then have "resolve w' p = Some (d @ [?n])"
    using ok w' by (simp add: resolve_def start_dir_fs_update)
  moreover have "fs w' (d @ [?n]) = Some (File b)" using w' by simp
  ultimately show ?thesis by blast
qed

lemma open_wb_then_read:
  assumes "open_wb w p b = Inr w'"
  shows "os_path_exists w' p" and "read_file w' p = Some b"
  using open_wb_then_resolve [OF assms] by (auto simp: os_path_exists_def read_file_def)

subsection \<open>Generate\<close>

lemma generate_InrD:
  assumes "post_generate_affidavit K B u1 u2 now hdr request w = (Inr resp, w')"
  shows "\<exists>k pdf. depends_verify_api_key K hdr = Inr k
           \<and> doc_build B (SimpleDocTemplate letter 72 72 90 72) (elements B now u2 request)
                add_page_elements = Inr pdf
           \<and> open_wb w (os_path_join PDF_STORAGE_DIR (generate_filename request u1)) pdf = Inr w'
           \<and> resp = \<lparr>pdfUrl = ''/download-affidavit/'' @ generate_filename request u1,
                      filename = generate_filename request u1\<rparr>"
  using assms
  by (auto simp: post_generate_affidavit_def generate_affidavit_def create_affidavit_pdf_def
      Let_def split: sum.splits)

lemma download_existing:
  assumes "depends_verify_api_key K hdr = Inr k"
    and "route_matches fname"
    and "os_path_exists w (os_path_join PDF_STORAGE_DIR fname)"
    and "read_file w (os_path_join PDF_STORAGE_DIR fname) = Some b"
  shows "get_download_affidavit K hdr fname w = (Inr b, w)"
  using assms by (simp add: get_download_affidavit_def download_affidavit_def Let_def)

subsection \<open>Files directly inside the storage directory\<close>

lemma no_sep_not_absolute: "CHR ''/'' \<notin> set fname \<Longrightarrow> \<not> startswith fname ''/''"
  by (auto simp: startswith_def prefix_def)

lemma storage_split:
  assumes "CHR ''/'' \<notin> set fname"
  shows "split_on CHR ''/'' (os_path_join PDF_STORAGE_DIR fname) = [PDF_STORAGE_DIR, fname]"
    and "start_dir w (os_path_join PDF_STORAGE_DIR fname) = cwd w"
    and "bad_path (os_path_join PDF_STORAGE_DIR fname)
           = (CHR 0x00 \<in> set fname \<or> PATH_MAX \<le> length fname + 15)"
proof -
  have j: "os_path_join ''generated_pdfs'' fname = ''generated_pdfs'' @ CHR ''/'' # fname"
    using join_storage_relative [OF no_sep_not_absolute [OF assms]]
    by (simp only: PDF_STORAGE_DIR_def)
  have "split_on CHR ''/'' (''generated_pdfs'' @ CHR ''/'' # fname) = [''generated_pdfs'', fname]"
    by (simp only: storage_path_props(2) split_on_no_sep [OF assms])
  then show "split_on CHR ''/'' (os_path_join PDF_STORAGE_DIR fname) = [PDF_STORAGE_DIR, fname]"
    by (simp only: PDF_STORAGE_DIR_def j)
  have "start_dir w (''generated_pdfs'' @ CHR ''/'' # fname) = cwd w"
    unfolding start_dir_def using storage_path_props(1) [of fname] by (simp only: if_False)
  then show "start_dir w (os_path_join PDF_STORAGE_DIR fname) = cwd w"
    by (simp only: PDF_STORAGE_DIR_def j)
  show "bad_path (os_path_join PDF_STORAGE_DIR fname)
           = (CHR 0x00 \<in> set fname \<or> PATH_MAX \<le> length fname + 15)"
    using storage_path_bad [of fname] by (simp only: PDF_STORAGE_DIR_def j)
qed

lemma storage_dir_proper:
  "PDF_STORAGE_DIR \<noteq> []" "PDF_STORAGE_DIR \<noteq> ''.''" "PDF_STORAGE_DIR \<noteq> ''..''"
  "\<not> NAME_MAX < length PDF_STORAGE_DIR"
  by (simp_all add: PDF_STORAGE_DIR_def NAME_MAX_def)

lemma short_name_path: "length fname \<le> NAME_MAX \<Longrightarrow> \<not> PATH_MAX \<le> length fname + 15"
  by (simp add: NAME_MAX_def PATH_MAX_def)

lemma walk_storage:
  assumes "fs w (cwd w) = Some Dir"
  shows "walk (fs w) (cwd w) [PDF_STORAGE_DIR] = Inr (cwd w @ [PDF_STORAGE_DIR])"
  using assms by (simp add: storage_dir_proper)

lemma open_wb_path_ok:
  assumes "\<not> bad_path p"
  shows "open_wb w p b =
     (let comps = split_on CHR ''/'' p; name = last comps in
        if name = [] then
          (case walk (fs w) (start_dir w p) (butlast comps) of
             Inl e \<Rightarrow> Inl (OSError e p)
           | Inr d \<Rightarrow> Inl (OSError EISDIR p))
        else if name = ''.'' \<or> name = ''..'' then
          (case walk (fs w) (start_dir w p) comps of
             Inl e \<Rightarrow> Inl (OSError e p)
           | Inr d \<Rightarrow> Inl (OSError EISDIR p))
        else
          (case walk (fs w) (start_dir w p) (butlast comps) of
             Inl e \<Rightarrow> Inl (OSError e p)
           | Inr d \<Rightarrow>
               (case fs w d of
                  None \<Rightarrow> Inl (OSError ENOENT p)
                | Some (File b) \<Rightarrow> Inl (OSError ENOTDIR p)
                | Some Dir \<Rightarrow>
                    if NAME_MAX < length name then Inl (OSError ENAMETOOLONG p)
                    else if fs w (d @ [name]) = Some Dir then Inl (OSError EISDIR p)
                    else Inr (w\<lparr>fs := (fs w)(d @ [name] \<mapsto> File b)\<rparr>))))"
  using assms unfolding open_wb_def bad_path_def by (simp only: de_Morgan_disj if_False)

lemma open_wb_storage:
  assumes "CHR ''/'' \<notin> set fname" and "CHR 0x00 \<notin> set fname"
    and "fname \<noteq> []" and "fname \<noteq> ''.''" and "fname \<noteq> ''..''"
    and "length fname \<le> NAME_MAX"
    and "fs w (cwd w) = Some Dir" and "fs w (cwd w @ [PDF_STORAGE_DIR]) = Some Dir"
    and "fs w (cwd w @ [PDF_STORAGE_DIR, fname]) \<noteq> Some Dir"
  shows "open_wb w (os_path_join PDF_STORAGE_DIR fname) b =
           Inr (w\<lparr>fs := (fs w)(cwd w @ [PDF_STORAGE_DIR, fname] \<mapsto> File b)\<rparr>)"
proof -
  have ok: "\<not> bad_path (os_path_join PDF_STORAGE_DIR fname)"
    using assms(2) short_name_path [OF assms(6)] by (simp add: storage_split(3) [OF assms(1)])
  show ?thesis
    unfolding open_wb_path_ok [OF ok]
    using assms(3-)
    by (simp add: storage_split [OF assms(1)] walk_storage Let_def del: walk.simps)
qed

lemma open_wb_storage_InrD:
  assumes "open_wb w (os_path_join PDF_STORAGE_DIR fname) b = Inr w'"
    and "CHR ''/'' \<notin> set fname"
  shows "w' = w\<lparr>fs := (fs w)(cwd w @ [PDF_STORAGE_DIR, fname] \<mapsto> File b)\<rparr>"
    and "fs w (cwd w) = Some Dir" and "fs w (cwd w @ [PDF_STORAGE_DIR]) = Some Dir"
    and "fs w (cwd w @ [PDF_STORAGE_DIR, fname]) \<noteq> Some Dir"
    and "length fname \<le> NAME_MAX"
proof -
  from open_wb_InrD [OF assms(1)] obtain d where
    wk: "walk (fs w) (cwd w) [PDF_STORAGE_DIR] = Inr d"
    and d: "fs w d = Some Dir" and len: "length fname \<le> NAME_MAX"
    and t: "fs w (d @ [fname]) \<noteq> Some Dir"
    and w': "w' = w\<lparr>fs := (fs w)(d @ [fname] \<mapsto> File b)\<rparr>"
    by (auto simp: storage_split [OF assms(2)])
  from walk_Cons_Inr [OF wk] show c: "fs w (cwd w) = Some Dir" .
  from wk walk_storage [OF c] have dd: "d = cwd w @ [PDF_STORAGE_DIR]" by simp
  from d dd show "fs w (cwd w @ [PDF_STORAGE_DIR]) = Some Dir" by simp
  from t dd show "fs w (cwd w @ [PDF_STORAGE_DIR, fname]) \<noteq> Some Dir" by simp
  from w' dd show "w' = w\<lparr>fs := (fs w)(cwd w @ [PDF_STORAGE_DIR, fname] \<mapsto> File b)\<rparr>" by simp
  from len show "length fname \<le> NAME_MAX" .
qed

lemma resolve_storage:
  assumes "CHR ''/'' \<notin> set fname" and "CHR 0x00 \<notin> set fname"
    and "fname \<noteq> []" and "fname \<noteq> ''.''" and "fname \<noteq> ''..''"
    and "length fname \<le> NAME_MAX"
    and "fs w (cwd w) = Some Dir" and "fs w (cwd w @ [PDF_STORAGE_DIR]) = Some Dir"
  shows "resolve w (os_path_join PDF_STORAGE_DIR fname) = Some (cwd w @ [PDF_STORAGE_DIR, fname])"
proof -
  have ok: "\<not> bad_path (os_path_join PDF_STORAGE_DIR fname)"
    using assms(2) short_name_path [OF assms(6)] by (simp add: storage_split(3) [OF assms(1)])
  show ?thesis
    using ok assms(3-)
    by (simp add: resolve_def storage_split(1,2) [OF assms(1)] storage_dir_proper)
qed



subsection \<open>The generated filename\<close>

lemma hex_char_not_sep:
  "c \<in> set ''0123456789abcdef'' \<Longrightarrow> c \<noteq> CHR ''/'' \<and> c \<noteq> CHR 0x00"
  by auto

lemma suffix_chars:
  "set (take 8 (uuid_hex u)) \<subseteq> set ''0123456789abcdef''"
  "length (take 8 (uuid_hex u)) = 8"
  using set_uuid_hex [of u] set_take_subset [of 8 "uuid_hex u"]
  by (blast, simp add: length_uuid_hex)

lemma suffix_no_sep:
  "CHR ''/'' \<notin> set (take 8 (uuid_hex u))" "CHR 0x00 \<notin> set (take 8 (uuid_hex u))"
  using suffix_chars(1) [of u] hex_char_not_sep by blast+

lemma generate_filename_sep:
  "CHR ''/'' \<in> set (generate_filename request u) \<longleftrightarrow> CHR ''/'' \<in> set (transactionId request)"
  "CHR 0x00 \<in> set (generate_filename request u) \<longleftrightarrow> CHR 0x00 \<in> set (transactionId request)"
  using suffix_no_sep [of u] by (auto simp: generate_filename_def)

lemma generate_filename_proper:
  "generate_filename request u \<noteq> []" "generate_filename request u \<noteq> ''.''"
  "generate_filename request u \<noteq> ''..''"
  by (simp_all add: generate_filename_def)

lemma generate_filename_eq_iff:
  "generate_filename request u = generate_filename request u' \<longleftrightarrow>
     take 8 (uuid_hex u) = take 8 (uuid_hex u')"
  by (simp add: generate_filename_def)

lemma length_generate_filename:
  "length (generate_filename request u) = length (transactionId request) + 29"
  by (simp add: generate_filename_def length_uuid_hex)

lemma generate_filename_route:
  "CHR ''/'' \<notin> set (transactionId request) \<Longrightarrow> route_matches (generate_filename request u)"
  by (simp add: route_matches_def generate_filename_sep generate_filename_proper)

subsection \<open>Reading from the storage directory\<close>



lemma download_stored:
  assumes "depends_verify_api_key K hdr = Inr k"
    and "CHR ''/'' \<notin> set fname" and "CHR 0x00 \<notin> set fname"
    and "fname \<noteq> []" and "fname \<noteq> ''.''" and "fname \<noteq> ''..''"
    and "length fname \<le> NAME_MAX"
    and "fs w (cwd w) = Some Dir" and "fs w (cwd w @ [PDF_STORAGE_DIR]) = Some Dir"
    and "fs w (cwd w @ [PDF_STORAGE_DIR, fname]) = Some (File b)"
  shows "get_download_affidavit K hdr fname w = (Inr b, w)"
proof -
  note r = resolve_storage [OF assms(2-9)]
  have m: "route_matches fname" using assms(2,4) by (simp add: route_matches_def)
  have "os_path_exists w (os_path_join PDF_STORAGE_DIR fname)"
    and "read_file w (os_path_join PDF_STORAGE_DIR fname) = Some b"
    using r assms(10) by (simp_all add: os_path_exists_def read_file_def)
  then show ?thesis by (rule download_existing [OF assms(1) m])
qed


subsection \<open>Successful generation\<close>

lemma generate_success:
  assumes "depends_verify_api_key K hdr = Inr k"
    and "doc_build B (SimpleDocTemplate letter 72 72 90 72) (elements B now u2 request)
           add_page_elements = Inr pdf"
    and "CHR ''/'' \<notin> set (transactionId request)" and "CHR 0x00 \<notin> set (transactionId request)"
    and "length (transactionId request) \<le> 226"
    and "fs w (cwd w) = Some Dir" and "fs w (cwd w @ [PDF_STORAGE_DIR]) = Some Dir"
    and "fs w (cwd w @ [PDF_STORAGE_DIR, generate_filename request u1]) \<noteq> Some Dir"
  shows "post_generate_affidavit K B u1 u2 now hdr request w =
           (Inr \<lparr>pdfUrl = ''/download-affidavit/'' @ generate_filename request u1,
                 filename = generate_filename request u1\<rparr>,
            w\<lparr>fs := (fs w)(cwd w @ [PDF_STORAGE_DIR, generate_filename request u1] \<mapsto> File pdf)\<rparr>)"
proof -
  have len: "length (generate_filename request u1) \<le> NAME_MAX"
    using assms(5) by (simp add: length_generate_filename NAME_MAX_def)
  have "open_wb w (os_path_join PDF_STORAGE_DIR (generate_filename request u1)) pdf =
          Inr (w\<lparr>fs := (fs w)(cwd w @ [PDF_STORAGE_DIR, generate_filename request u1] \<mapsto> File pdf)\<rparr>)"
    using assms(3,4) by (intro open_wb_storage generate_filename_proper len assms(6-8))
      (simp_all add: generate_filename_sep)
  then show ?thesis
    using assms(1,2)
    by (simp add: post_generate_affidavit_def generate_affidavit_def create_affidavit_pdf_def Let_def)
qed

lemma example_world_dirs:
  "fs example_world (cwd example_world) = Some Dir"
  "fs example_world (cwd example_world @ [PDF_STORAGE_DIR]) = Some Dir"
  "fs example_world (cwd example_world @ [''app.py'']) = Some (File ''import os'')"
  "fs example_world (cwd example_world @ [''.env'']) = Some (File ''API_KEY=s3cret'')"
  by (simp_all add: example_world_def PDF_STORAGE_DIR_def)

lemma example_world_store_empty: "fs example_world (cwd example_world @ [PDF_STORAGE_DIR, n]) = None"
  by (simp add: example_world_def PDF_STORAGE_DIR_def)

lemma example_build_ok:
  "doc_build example_backend doc els add_page_elements = Inr (''%PDF'' @ concat (map flowable_text els))"
proof -
  from add_page_elements_ok [of example_now blank_canvas doc]
  obtain c' where "add_page_elements example_now blank_canvas doc = (None, c')" by blast
  then show ?thesis by (simp add: example_backend_def example_build_def)
qed

lemma example_suffix: "take 8 (uuid_hex example_uuid) = ''0000002a''"
  "take 8 (uuid_hex example_uuid') = ''0000002a''"
  by code_simp+

lemma example_filename:
  "generate_filename example_request example_uuid = ''VAULT_Affidavit_TX123_0000002a.pdf''"
  "generate_filename example_request example_uuid' = ''VAULT_Affidavit_TX123_0000002a.pdf''"
  by (simp_all add: generate_filename_def example_suffix example_request_def)

lemma example_request_id:
  "CHR ''/'' \<notin> set (transactionId example_request)"
  "CHR 0x00 \<notin> set (transactionId example_request)"
  "length (transactionId example_request) \<le> 226"
  by (simp_all add: example_request_def)

lemma example_generate:
  "post_generate_affidavit ''s3cret'' example_backend example_uuid u2 example_now
      (Some ''Bearer s3cret'') example_request example_world =
     (Inr \<lparr>pdfUrl = ''/download-affidavit/VAULT_Affidavit_TX123_0000002a.pdf'',
           filename = ''VAULT_Affidavit_TX123_0000002a.pdf''\<rparr>,
      example_world\<lparr>fs := (fs example_world)
        (cwd example_world @ [PDF_STORAGE_DIR, ''VAULT_Affidavit_TX123_0000002a.pdf'']
           \<mapsto> File (example_pdf u2 example_request))\<rparr>)"
proof -
  have "post_generate_affidavit ''s3cret'' example_backend example_uuid u2 example_now
      (Some ''Bearer s3cret'') example_request example_world =
     (Inr \<lparr>pdfUrl = ''/download-affidavit/'' @ generate_filename example_request example_uuid,
           filename = generate_filename example_request example_uuid\<rparr>,
      example_world\<lparr>fs := (fs example_world)
        (cwd example_world @ [PDF_STORAGE_DIR, generate_filename example_request example_uuid]
           \<mapsto> File (example_pdf u2 example_request))\<rparr>)"
    unfolding example_pdf_def
    by (rule generate_success [OF example_key_valid example_build_ok example_request_id
          example_world_dirs(1,2)])
      (simp add: example_world_store_empty)
  then show ?thesis by (simp add: example_filename)
qed

lemma escape_split:
  "split_on CHR ''/'' ''generated_pdfs/VAULT_Affidavit_x/../../evil_0000002a.pdf'' =
     [''generated_pdfs'', ''VAULT_Affidavit_x'', ''..'', ''..'', ''evil_0000002a.pdf'']"
  by simp

lemma escape_open:
  "open_wb escape_world ''generated_pdfs/VAULT_Affidavit_x/../../evil_0000002a.pdf'' pdf =
     Inr (escape_world\<lparr>fs := (fs escape_world)([''srv'', ''evil_0000002a.pdf''] \<mapsto> File pdf)\<rparr>)"
  unfolding open_wb_def escape_split
  by (simp add: start_dir_def startswith_def escape_world_def example_world_def
      NAME_MAX_def PATH_MAX_def)

lemma escape_generate:
  "post_generate_affidavit ''s3cret'' example_backend example_uuid u2 example_now
      (Some ''Bearer s3cret'') (example_request\<lparr>transactionId := ''x/../../evil''\<rparr>) escape_world =
     (Inr \<lparr>pdfUrl = ''/download-affidavit/VAULT_Affidavit_x/../../evil_0000002a.pdf'',
           filename = ''VAULT_Affidavit_x/../../evil_0000002a.pdf''\<rparr>,
      escape_world\<lparr>fs := (fs escape_world)([''srv'', ''evil_0000002a.pdf'']
         \<mapsto> File (example_pdf u2 (example_request\<lparr>transactionId := ''x/../../evil''\<rparr>)))\<rparr>)"
proof -
  have f: "generate_filename (example_request\<lparr>transactionId := ''x/../../evil''\<rparr>) example_uuid
             = ''VAULT_Affidavit_x/../../evil_0000002a.pdf''"
    by (simp add: generate_filename_def example_suffix)
  have j: "os_path_join PDF_STORAGE_DIR ''VAULT_Affidavit_x/../../evil_0000002a.pdf''
             = ''generated_pdfs/VAULT_Affidavit_x/../../evil_0000002a.pdf''"
    by (simp add: os_path_join_def PDF_STORAGE_DIR_def startswith_def)
  show ?thesis
    by (simp add: post_generate_affidavit_def generate_affidavit_def create_affidavit_pdf_def
        Let_def example_key_valid example_build_ok f j escape_open example_pdf_def)
qed

subsection \<open>Retrieve after Generate\<close>

lemma download_unrouted:
  "\<not> route_matches fname \<Longrightarrow>
     get_download_affidavit K hdr fname w = (Inl (HTTPException 404 ''Not Found''), w)"
  by (simp add: get_download_affidavit_def)

text \<open>
  Claim C9, as amended. After a successful Generate for a transaction identifier without
  \<open>/\<close>, Retrieve with the returned filename and a valid credential returns exactly the
  bytes that the builder produced and Generate stored, and leaves the world as it is, so
  that a further Retrieve returns the same bytes.
\<close>

theorem retrieve_after_generate:
  assumes "post_generate_affidavit K B u1 u2 now hdr request w = (Inr resp, w')"
    and "CHR ''/'' \<notin> set (transactionId request)"
    and "depends_verify_api_key K hdr' = Inr k"
  shows "\<exists>pdf. doc_build B (SimpleDocTemplate letter 72 72 90 72) (elements B now u2 request)
                  add_page_elements = Inr pdf
           \<and> get_download_affidavit K hdr' (filename resp) w' = (Inr pdf, w')
           \<and> get_download_affidavit K hdr' (filename resp)
                (snd (get_download_affidavit K hdr' (filename resp) w')) = (Inr pdf, w')"
proof -
  from generate_InrD [OF assms(1)] obtain pdf where
    b: "doc_build B (SimpleDocTemplate letter 72 72 90 72) (elements B now u2 request)
          add_page_elements = Inr pdf"
    and o: "open_wb w (os_path_join PDF_STORAGE_DIR (generate_filename request u1)) pdf = Inr w'"
    and r: "filename resp = generate_filename request u1"
    by auto
  have m: "route_matches (generate_filename request u1)"
    by (rule generate_filename_route [OF assms(2)])
  have "get_download_affidavit K hdr' (filename resp) w' = (Inr pdf, w')"
    using download_existing [OF assms(3) m open_wb_then_read [OF o]] r by simp
  with b show ?thesis by simp
qed

theorem retrieve_after_generate_witness:
  "post_generate_affidavit ''s3cret'' example_backend example_uuid example_uuid2 example_now
      (Some ''Bearer s3cret'') example_request example_world =
     (Inr \<lparr>pdfUrl = ''/download-affidavit/VAULT_Affidavit_TX123_0000002a.pdf'',
           filename = ''VAULT_Affidavit_TX123_0000002a.pdf''\<rparr>,
      example_world\<lparr>fs := (fs example_world)
        (cwd example_world @ [PDF_STORAGE_DIR, ''VAULT_Affidavit_TX123_0000002a.pdf'']
           \<mapsto> File (example_pdf example_uuid2 example_request))\<rparr>)
   \<and> CHR ''/'' \<notin> set (transactionId example_request)
   \<and> depends_verify_api_key ''s3cret'' (Some ''Bearer s3cret'') = Inr ''s3cret''
   \<and> get_download_affidavit ''s3cret'' (Some ''Bearer s3cret'') ''VAULT_Affidavit_TX123_0000002a.pdf''
        (example_world\<lparr>fs := (fs example_world)
          (cwd example_world @ [PDF_STORAGE_DIR, ''VAULT_Affidavit_TX123_0000002a.pdf'']
             \<mapsto> File (example_pdf example_uuid2 example_request))\<rparr>)
       = (Inr (example_pdf example_uuid2 example_request),
          example_world\<lparr>fs := (fs example_world)
            (cwd example_world @ [PDF_STORAGE_DIR, ''VAULT_Affidavit_TX123_0000002a.pdf'']
               \<mapsto> File (example_pdf example_uuid2 example_request))\<rparr>)"
proof -
  note g = example_generate [of example_uuid2]
  from retrieve_after_generate [OF g example_request_id(1) example_key_valid]
  show ?thesis using g example_key_valid example_request_id(1)
    by (auto simp: example_build_ok example_pdf_def)
qed

text \<open>
  The claim as stated fails. Where the storage directory holds a directory
  \<open>VAULT_Affidavit_x\<close>, Generate succeeds for the identifier \<open>x/../../evil\<close> and returns
  a filename with \<open>/\<close> in it; Retrieve of that filename matches no route and is answered
  not found, although the artifact was stored.
\<close>

theorem retrieve_after_generate_counterexample:
  "post_generate_affidavit ''s3cret'' example_backend example_uuid example_uuid2 example_now
      (Some ''Bearer s3cret'') (example_request\<lparr>transactionId := ''x/../../evil''\<rparr>) escape_world =
     (Inr \<lparr>pdfUrl = ''/download-affidavit/VAULT_Affidavit_x/../../evil_0000002a.pdf'',
           filename = ''VAULT_Affidavit_x/../../evil_0000002a.pdf''\<rparr>,
      escape_world\<lparr>fs := (fs escape_world)([''srv'', ''evil_0000002a.pdf'']
         \<mapsto> File (example_pdf example_uuid2 (example_request\<lparr>transactionId := ''x/../../evil''\<rparr>)))\<rparr>)
   \<and> depends_verify_api_key ''s3cret'' (Some ''Bearer s3cret'') = Inr ''s3cret''
   \<and> get_download_affidavit ''s3cret'' (Some ''Bearer s3cret'')
        ''VAULT_Affidavit_x/../../evil_0000002a.pdf''
        (escape_world\<lparr>fs := (fs escape_world)([''srv'', ''evil_0000002a.pdf'']
           \<mapsto> File (example_pdf example_uuid2 (example_request\<lparr>transactionId := ''x/../../evil''\<rparr>)))\<rparr>)
       = (Inl (HTTPException 404 ''Not Found''),
          escape_world\<lparr>fs := (fs escape_world)([''srv'', ''evil_0000002a.pdf'']
           \<mapsto> File (example_pdf example_uuid2 (example_request\<lparr>transactionId := ''x/../../evil''\<rparr>)))\<rparr>)"
proof -
  have "\<not> route_matches ''VAULT_Affidavit_x/../../evil_0000002a.pdf''"
    by (simp add: route_matches_def)
  then have "get_download_affidavit ''s3cret'' (Some ''Bearer s3cret'')
        ''VAULT_Affidavit_x/../../evil_0000002a.pdf'' v
       = (Inl (HTTPException 404 ''Not Found''), v)" for v
    by (rule download_unrouted)
  with escape_generate [of example_uuid2] example_key_valid show ?thesis by blast
qed

subsection \<open>What Retrieve serves\<close>





subsection \<open>Where Generate writes\<close>

text \<open>
  Claim C2, as amended. Validation puts no condition on the transaction identifier and
  Generate uses it as it is. When the identifier holds no \<open>/\<close>, the returned filename
  is a single path component (no \<open>/\<close>, not empty, not \<open>.\<close> or \<open>..\<close>) and a successful
  Generate changes the file system at exactly one place: the file of that name directly
  inside the storage directory.
\<close>

theorem generate_writes_inside_store:
  assumes "post_generate_affidavit K B u1 u2 now hdr request w = (Inr resp, w')"
    and "CHR ''/'' \<notin> set (transactionId request)"
  shows "CHR ''/'' \<notin> set (filename resp) \<and> filename resp \<noteq> [] \<and> filename resp \<noteq> ''.''
         \<and> filename resp \<noteq> ''..''
         \<and> (\<exists>pdf. w' = w\<lparr>fs := (fs w)(cwd w @ [PDF_STORAGE_DIR, filename resp] \<mapsto> File pdf)\<rparr>)"
proof -
  from generate_InrD [OF assms(1)] obtain pdf where
    o: "open_wb w (os_path_join PDF_STORAGE_DIR (generate_filename request u1)) pdf = Inr w'"
    and r: "filename resp = generate_filename request u1"
    by auto
  have s: "CHR ''/'' \<notin> set (generate_filename request u1)"
    using assms(2) by (simp add: generate_filename_sep)
  from open_wb_storage_InrD(1) [OF o s] r s generate_filename_proper [of request u1]
  show ?thesis by auto
qed

theorem generate_writes_inside_store_witness:
  "post_generate_affidavit ''s3cret'' example_backend example_uuid example_uuid2 example_now
      (Some ''Bearer s3cret'') example_request example_world =
     (Inr \<lparr>pdfUrl = ''/download-affidavit/VAULT_Affidavit_TX123_0000002a.pdf'',
           filename = ''VAULT_Affidavit_TX123_0000002a.pdf''\<rparr>,
      example_world\<lparr>fs := (fs example_world)
        ([''srv'', ''generated_pdfs'', ''VAULT_Affidavit_TX123_0000002a.pdf'']
           \<mapsto> File (example_pdf example_uuid2 example_request))\<rparr>)
   \<and> CHR ''/'' \<notin> set (transactionId example_request)
   \<and> CHR ''/'' \<notin> set ''VAULT_Affidavit_TX123_0000002a.pdf''"
proof -
  have g: "post_generate_affidavit ''s3cret'' example_backend example_uuid example_uuid2 example_now
      (Some ''Bearer s3cret'') example_request example_world =
     (Inr \<lparr>pdfUrl = ''/download-affidavit/VAULT_Affidavit_TX123_0000002a.pdf'',
           filename = ''VAULT_Affidavit_TX123_0000002a.pdf''\<rparr>,
      example_world\<lparr>fs := (fs example_world)
        ([''srv'', ''generated_pdfs'', ''VAULT_Affidavit_TX123_0000002a.pdf'']
           \<mapsto> File (example_pdf example_uuid2 example_request))\<rparr>)"
    using example_generate [of example_uuid2] by (simp add: example_world_def PDF_STORAGE_DIR_def)
  have t: "CHR ''/'' \<notin> set (transactionId example_request)"
    by (simp add: example_request_def)
  from generate_writes_inside_store [OF g t] g t show ?thesis by simp
qed

lemma empty_id_generate:
  "post_generate_affidavit ''s3cret'' example_backend example_uuid u2 example_now
      (Some ''Bearer s3cret'') (example_request\<lparr>transactionId := []\<rparr>) example_world =
     (Inr \<lparr>pdfUrl = ''/download-affidavit/VAULT_Affidavit__0000002a.pdf'',
           filename = ''VAULT_Affidavit__0000002a.pdf''\<rparr>,
      example_world\<lparr>fs := (fs example_world)
        (cwd example_world @ [PDF_STORAGE_DIR, ''VAULT_Affidavit__0000002a.pdf'']
           \<mapsto> File (example_pdf u2 (example_request\<lparr>transactionId := []\<rparr>)))\<rparr>)"
proof -
  let ?r = "example_request\<lparr>transactionId := []\<rparr>"
  have f: "generate_filename ?r example_uuid = ''VAULT_Affidavit__0000002a.pdf''"
    by (simp add: generate_filename_def example_suffix)
  have "post_generate_affidavit ''s3cret'' example_backend example_uuid u2 example_now
      (Some ''Bearer s3cret'') ?r example_world =
     (Inr \<lparr>pdfUrl = ''/download-affidavit/'' @ generate_filename ?r example_uuid,
           filename = generate_filename ?r example_uuid\<rparr>,
      example_world\<lparr>fs := (fs example_world)
        (cwd example_world @ [PDF_STORAGE_DIR, generate_filename ?r example_uuid]
           \<mapsto> File (example_pdf u2 ?r))\<rparr>)"
    unfolding example_pdf_def
    by (rule generate_success [OF example_key_valid example_build_ok _ _ _ example_world_dirs(1,2)])
      (simp_all add: example_world_store_empty)
  then show ?thesis by (simp add: f)
qed

text \<open>
  The claim as stated fails. An empty transaction identifier passes validation and is
  served. An identifier with path segments is put into the filename as it is; where
  the storage directory holds a directory \<open>VAULT_Affidavit_x\<close>, the identifier
  \<open>x/../../evil\<close> makes Generate write next to the storage directory, not inside it.
\<close>

theorem transaction_id_unchecked_counterexample:
  "transactionId (example_request\<lparr>transactionId := []\<rparr>) = []
   \<and> fst (post_generate_affidavit ''s3cret'' example_backend example_uuid example_uuid2 example_now
        (Some ''Bearer s3cret'') (example_request\<lparr>transactionId := []\<rparr>) example_world) =
       Inr \<lparr>pdfUrl = ''/download-affidavit/VAULT_Affidavit__0000002a.pdf'',
            filename = ''VAULT_Affidavit__0000002a.pdf''\<rparr>
   \<and> post_generate_affidavit ''s3cret'' example_backend example_uuid example_uuid2 example_now
        (Some ''Bearer s3cret'') (example_request\<lparr>transactionId := ''x/../../evil''\<rparr>) escape_world =
       (Inr \<lparr>pdfUrl = ''/download-affidavit/VAULT_Affidavit_x/../../evil_0000002a.pdf'',
             filename = ''VAULT_Affidavit_x/../../evil_0000002a.pdf''\<rparr>,
        escape_world\<lparr>fs := (fs escape_world)([''srv'', ''evil_0000002a.pdf'']
           \<mapsto> File (example_pdf example_uuid2 (example_request\<lparr>transactionId := ''x/../../evil''\<rparr>)))\<rparr>)
   \<and> cwd escape_world @ [PDF_STORAGE_DIR] = [''srv'', ''generated_pdfs'']"
proof -
  have "cwd escape_world @ [PDF_STORAGE_DIR] = [''srv'', ''generated_pdfs'']"
    by (simp add: escape_world_def example_world_def PDF_STORAGE_DIR_def)
  then show ?thesis
    unfolding empty_id_generate [of example_uuid2] escape_generate [of example_uuid2] fst_conv
    by simp
qed

subsection \<open>Repeated generation\<close>

lemma generate_twice:
  fixes u1 v1 :: uuid and pdf1 pdf2 :: bytes
  assumes valid: "depends_verify_api_key K hdr = Inr k"
    and sep: "CHR ''/'' \<notin> set (transactionId request)"
    and nul: "CHR 0x00 \<notin> set (transactionId request)"
    and len: "length (transactionId request) \<le> 226"
    and cw: "fs w (cwd w) = Some Dir" and sd: "fs w (cwd w @ [PDF_STORAGE_DIR]) = Some Dir"
    and nodir: "\<forall>n. fs w (cwd w @ [PDF_STORAGE_DIR, n]) \<noteq> Some Dir"
    and b1: "doc_build B (SimpleDocTemplate letter 72 72 90 72) (elements B now u2 request)
               add_page_elements = Inr pdf1"
    and b2: "doc_build B (SimpleDocTemplate letter 72 72 90 72) (elements B now' u2' request)
               add_page_elements = Inr pdf2"
  defines "f1 \<equiv> generate_filename request u1" and "f2 \<equiv> generate_filename request v1"
  defines "w1 \<equiv> w\<lparr>fs := (fs w)(cwd w @ [PDF_STORAGE_DIR, f1] \<mapsto> File pdf1)\<rparr>"
  defines "w2 \<equiv> w1\<lparr>fs := (fs w1)(cwd w @ [PDF_STORAGE_DIR, f2] \<mapsto> File pdf2)\<rparr>"
  shows "post_generate_affidavit K B u1 u2 now hdr request w =
           (Inr \<lparr>pdfUrl = ''/download-affidavit/'' @ f1, filename = f1\<rparr>, w1)"
    and "post_generate_affidavit K B v1 u2' now' hdr request w1 =
           (Inr \<lparr>pdfUrl = ''/download-affidavit/'' @ f2, filename = f2\<rparr>, w2)"
    and "get_download_affidavit K hdr f1 w1 = (Inr pdf1, w1)"
    and "get_download_affidavit K hdr f1 w2 = (Inr (if f2 = f1 then pdf2 else pdf1), w2)"
proof -
  have p1: "CHR ''/'' \<notin> set f1" "CHR 0x00 \<notin> set f1" "f1 \<noteq> []" "f1 \<noteq> ''.''" "f1 \<noteq> ''..''"
    "length f1 \<le> NAME_MAX"
    using sep nul len
    by (simp_all add: f1_def generate_filename_sep generate_filename_proper
        length_generate_filename NAME_MAX_def)
  have nd1: "fs w (cwd w @ [PDF_STORAGE_DIR, f1]) \<noteq> Some Dir" using nodir by blast
  show g1: "post_generate_affidavit K B u1 u2 now hdr request w =
           (Inr \<lparr>pdfUrl = ''/download-affidavit/'' @ f1, filename = f1\<rparr>, w1)"
    unfolding f1_def w1_def
    by (rule generate_success [OF valid b1 sep nul len cw sd nd1 [unfolded f1_def]])
  have c1: "cwd w1 = cwd w" by (simp add: w1_def)
  have cw1: "fs w1 (cwd w1) = Some Dir" using cw by (simp add: w1_def)
  have sd1: "fs w1 (cwd w1 @ [PDF_STORAGE_DIR]) = Some Dir" using sd by (simp add: w1_def)
  have nd2: "fs w1 (cwd w1 @ [PDF_STORAGE_DIR, generate_filename request v1]) \<noteq> Some Dir"
    using nodir by (simp add: w1_def)
  show "post_generate_affidavit K B v1 u2' now' hdr request w1 =
           (Inr \<lparr>pdfUrl = ''/download-affidavit/'' @ f2, filename = f2\<rparr>, w2)"
    using generate_success [OF valid b2 sep nul len cw1 sd1 nd2]
    by (simp add: f2_def w2_def c1)
  have st1: "fs w1 (cwd w1 @ [PDF_STORAGE_DIR, f1]) = Some (File pdf1)" by (simp add: w1_def)
  show "get_download_affidavit K hdr f1 w1 = (Inr pdf1, w1)"
    by (rule download_stored [OF valid p1 cw1 sd1 st1])
  have c2: "cwd w2 = cwd w" by (simp add: w2_def w1_def)
  have cw2: "fs w2 (cwd w2) = Some Dir" using cw by (simp add: w2_def w1_def)
  have sd2: "fs w2 (cwd w2 @ [PDF_STORAGE_DIR]) = Some Dir" using sd by (simp add: w2_def w1_def)
  have st2: "fs w2 (cwd w2 @ [PDF_STORAGE_DIR, f1]) = Some (File (if f2 = f1 then pdf2 else pdf1))"
    by (simp add: w2_def w1_def)
  show "get_download_affidavit K hdr f1 w2 = (Inr (if f2 = f1 then pdf2 else pdf1), w2)"
    by (rule download_stored [OF valid p1 cw2 sd2 st2])
qed

text \<open>
  Claim C5, as amended. Let the credential be valid, the transaction identifier hold
  neither \<open>/\<close> nor a NUL character and be at most 226 bytes long (so that the filename
  is at most 255 bytes), the storage directory exist and hold no directory, and the
  builder succeed. Then Generate succeeds and returns the retrieval path
  \<open>/download-affidavit/\<close> followed by the filename, the filename being
  \<open>VAULT_Affidavit_\<close>, the identifier, \<open>_\<close>, eight lowercase hexadecimal digits and
  \<open>.pdf\<close>. A repeated call with the same input succeeds as well; its filename equals
  the earlier one exactly when the two random suffixes are equal, and when they differ
  the earlier artifact is retrieved as before.
\<close>

theorem generate_filename_unique_by_suffix:
  assumes "depends_verify_api_key K hdr = Inr k"
    and "CHR ''/'' \<notin> set (transactionId request)"
    and "CHR 0x00 \<notin> set (transactionId request)"
    and "length (transactionId request) \<le> 226"
    and "fs w (cwd w) = Some Dir" and "fs w (cwd w @ [PDF_STORAGE_DIR]) = Some Dir"
    and "\<forall>n. fs w (cwd w @ [PDF_STORAGE_DIR, n]) \<noteq> Some Dir"
    and "\<forall>t u. \<exists>pdf. doc_build B (SimpleDocTemplate letter 72 72 90 72) (elements B t u request)
                         add_page_elements = Inr pdf"
  shows "\<exists>resp w'. post_generate_affidavit K B u1 u2 now hdr request w = (Inr resp, w')
      \<and> filename resp =
            ''VAULT_Affidavit_'' @ transactionId request @ ''_'' @ take 8 (uuid_hex u1) @ ''.pdf''
      \<and> length (take 8 (uuid_hex u1)) = 8
      \<and> set (take 8 (uuid_hex u1)) \<subseteq> set ''0123456789abcdef''
      \<and> pdfUrl resp = ''/download-affidavit/'' @ filename resp
      \<and> (\<exists>resp2 w''. post_generate_affidavit K B u1' u2' now' hdr request w' = (Inr resp2, w'')
            \<and> (filename resp2 = filename resp \<longleftrightarrow> take 8 (uuid_hex u1') = take 8 (uuid_hex u1))
            \<and> (take 8 (uuid_hex u1') \<noteq> take 8 (uuid_hex u1) \<longrightarrow>
                  fst (get_download_affidavit K hdr (filename resp) w'')
                    = fst (get_download_affidavit K hdr (filename resp) w')))"
proof -
  from assms(8) obtain pdf1 pdf2 where
    b1: "doc_build B (SimpleDocTemplate letter 72 72 90 72) (elements B now u2 request)
               add_page_elements = Inr pdf1"
    and b2: "doc_build B (SimpleDocTemplate letter 72 72 90 72) (elements B now' u2' request)
               add_page_elements = Inr pdf2"
    by blast
  let ?f1 = "generate_filename request u1" and ?f2 = "generate_filename request u1'"
  let ?w1 = "w\<lparr>fs := (fs w)(cwd w @ [PDF_STORAGE_DIR, ?f1] \<mapsto> File pdf1)\<rparr>"
  let ?w2 = "?w1\<lparr>fs := (fs ?w1)(cwd w @ [PDF_STORAGE_DIR, ?f2] \<mapsto> File pdf2)\<rparr>"
  let ?r1 = "\<lparr>pdfUrl = ''/download-affidavit/'' @ ?f1, filename = ?f1\<rparr>"
  let ?r2 = "\<lparr>pdfUrl = ''/download-affidavit/'' @ ?f2, filename = ?f2\<rparr>"
  note t = generate_twice [OF assms(1-7) b1 b2]
  have e: "?f2 = ?f1 \<longleftrightarrow> take 8 (uuid_hex u1') = take 8 (uuid_hex u1)"
    by (rule generate_filename_eq_iff)
  have g1: "post_generate_affidavit K B u1 u2 now hdr request w = (Inr ?r1, ?w1)"
    by (rule t(1))
  have g2: "post_generate_affidavit K B u1' u2' now' hdr request ?w1 = (Inr ?r2, ?w2)"
    by (rule t(2))
  have n: "filename ?r1 =
      ''VAULT_Affidavit_'' @ transactionId request @ ''_'' @ take 8 (uuid_hex u1) @ ''.pdf''"
    by (simp add: generate_filename_def)
  have u: "pdfUrl ?r1 = ''/download-affidavit/'' @ filename ?r1" by simp
  have q: "filename ?r2 = filename ?r1 \<longleftrightarrow> take 8 (uuid_hex u1') = take 8 (uuid_hex u1)"
    using e by simp
  have d: "take 8 (uuid_hex u1') \<noteq> take 8 (uuid_hex u1) \<longrightarrow>
             fst (get_download_affidavit K hdr (filename ?r1) ?w2)
               = fst (get_download_affidavit K hdr (filename ?r1) ?w1)"
  proof
    assume "take 8 (uuid_hex u1') \<noteq> take 8 (uuid_hex u1)"
    then have "?f2 \<noteq> ?f1" using e by simp
    then have "get_download_affidavit K hdr ?f1 ?w2 = (Inr pdf1, ?w2)"
      using t(4) [where ?u1.0 = u1 and ?v1.0 = u1'] by (simp only: if_False)
    moreover have "get_download_affidavit K hdr ?f1 ?w1 = (Inr pdf1, ?w1)" by (rule t(3))
    moreover have "filename ?r1 = ?f1" by simp
    ultimately show "fst (get_download_affidavit K hdr (filename ?r1) ?w2)
               = fst (get_download_affidavit K hdr (filename ?r1) ?w1)"
      by (simp only: fst_conv)
  qed
  from g2 q d have "\<exists>resp2 w''. post_generate_affidavit K B u1' u2' now' hdr request ?w1 = (Inr resp2, w'')
            \<and> (filename resp2 = filename ?r1 \<longleftrightarrow> take 8 (uuid_hex u1') = take 8 (uuid_hex u1))
            \<and> (take 8 (uuid_hex u1') \<noteq> take 8 (uuid_hex u1) \<longrightarrow>
                  fst (get_download_affidavit K hdr (filename ?r1) w'')
                    = fst (get_download_affidavit K hdr (filename ?r1) ?w1))"
    by blast
  with g1 n u suffix_chars [of u1] show ?thesis by blast
qed

lemma example_world_no_dirs: "\<forall>n. fs example_world (cwd example_world @ [PDF_STORAGE_DIR, n]) \<noteq> Some Dir"
  by (simp add: example_world_store_empty)

lemma example_builds:
  "\<forall>t u. \<exists>pdf. doc_build example_backend (SimpleDocTemplate letter 72 72 90 72)
                    (elements example_backend t u example_request) add_page_elements = Inr pdf"
  by (simp add: example_build_ok)

theorem generate_filename_unique_by_suffix_witness:
  "depends_verify_api_key ''s3cret'' (Some ''Bearer s3cret'') = Inr ''s3cret''
   \<and> CHR ''/'' \<notin> set (transactionId example_request)
   \<and> CHR 0x00 \<notin> set (transactionId example_request)
   \<and> length (transactionId example_request) \<le> 226
   \<and> fs example_world (cwd example_world) = Some Dir
   \<and> fs example_world (cwd example_world @ [PDF_STORAGE_DIR]) = Some Dir
   \<and> (\<forall>n. fs example_world (cwd example_world @ [PDF_STORAGE_DIR, n]) \<noteq> Some Dir)
   \<and> (\<forall>t u. \<exists>pdf. doc_build example_backend (SimpleDocTemplate letter 72 72 90 72)
                    (elements example_backend t u example_request) add_page_elements = Inr pdf)
   \<and> (\<exists>resp w'. post_generate_affidavit ''s3cret'' example_backend example_uuid example_uuid2
                    example_now (Some ''Bearer s3cret'') example_request example_world = (Inr resp, w')
      \<and> filename resp = ''VAULT_Affidavit_'' @ transactionId example_request @ ''_''
                           @ take 8 (uuid_hex example_uuid) @ ''.pdf''
      \<and> length (take 8 (uuid_hex example_uuid)) = 8
      \<and> set (take 8 (uuid_hex example_uuid)) \<subseteq> set ''0123456789abcdef''
      \<and> pdfUrl resp = ''/download-affidavit/'' @ filename resp
      \<and> (\<exists>resp2 w''. post_generate_affidavit ''s3cret'' example_backend example_uuid2 example_uuid
                    example_now (Some ''Bearer s3cret'') example_request w' = (Inr resp2, w'')
            \<and> (filename resp2 = filename resp
                  \<longleftrightarrow> take 8 (uuid_hex example_uuid2) = take 8 (uuid_hex example_uuid))
            \<and> (take 8 (uuid_hex example_uuid2) \<noteq> take 8 (uuid_hex example_uuid) \<longrightarrow>
                  fst (get_download_affidavit ''s3cret'' (Some ''Bearer s3cret'') (filename resp) w'')
                    = fst (get_download_affidavit ''s3cret'' (Some ''Bearer s3cret'') (filename resp) w'))))"
  using generate_filename_unique_by_suffix [OF example_key_valid example_request_id
      example_world_dirs(1,2) example_world_no_dirs example_builds,
      of example_uuid example_uuid2 example_now example_uuid2 example_uuid example_now]
    example_key_valid example_request_id example_world_dirs(1,2) example_world_no_dirs example_builds
  by blast

lemma example_pdf_eq_iff:
  "example_pdf a r = example_pdf b r \<longleftrightarrow>
     upper (take 12 (uuid_hex a)) = upper (take 12 (uuid_hex b))"
  by (simp add: example_pdf_def elements_def verification_data_def security_hash_length)

lemma example_hashes:
  "upper (take 12 (uuid_hex example_uuid)) = ''0000002A0000''"
  "upper (take 12 (uuid_hex example_uuid2)) = ''1B2C3D4E5F60''"
  by code_simp+

lemma example_uuids_differ: "example_uuid \<noteq> example_uuid'"
  by (simp add: example_uuid_def example_uuid'_def)

text \<open>
  The claim as stated fails. Two Generate calls with identical input whose UUIDs differ
  but agree in their first eight hexadecimal digits return the same filename, and the
  second call overwrites the artifact of the first: Retrieve then returns the second
  document, whose bytes differ from the first.
\<close>

theorem filename_collision_counterexample:
  "example_uuid \<noteq> example_uuid'
   \<and> post_generate_affidavit ''s3cret'' example_backend example_uuid example_uuid2 example_now
        (Some ''Bearer s3cret'') example_request example_world =
       (Inr \<lparr>pdfUrl = ''/download-affidavit/'' @ ''VAULT_Affidavit_TX123_0000002a.pdf'',
             filename = ''VAULT_Affidavit_TX123_0000002a.pdf''\<rparr>,
        example_world\<lparr>fs := (fs example_world)
          (cwd example_world @ [PDF_STORAGE_DIR, ''VAULT_Affidavit_TX123_0000002a.pdf'']
             \<mapsto> File (example_pdf example_uuid2 example_request))\<rparr>)
   \<and> fst (post_generate_affidavit ''s3cret'' example_backend example_uuid' example_uuid example_now
        (Some ''Bearer s3cret'') example_request
        (example_world\<lparr>fs := (fs example_world)
          (cwd example_world @ [PDF_STORAGE_DIR, ''VAULT_Affidavit_TX123_0000002a.pdf'']
             \<mapsto> File (example_pdf example_uuid2 example_request))\<rparr>)) =
       Inr \<lparr>pdfUrl = ''/download-affidavit/'' @ ''VAULT_Affidavit_TX123_0000002a.pdf'',
            filename = ''VAULT_Affidavit_TX123_0000002a.pdf''\<rparr>
   \<and> fst (get_download_affidavit ''s3cret'' (Some ''Bearer s3cret'')
          ''VAULT_Affidavit_TX123_0000002a.pdf''
          (example_world\<lparr>fs := (fs example_world)
            (cwd example_world @ [PDF_STORAGE_DIR, ''VAULT_Affidavit_TX123_0000002a.pdf'']
               \<mapsto> File (example_pdf example_uuid2 example_request))\<rparr>)) =
       Inr (example_pdf example_uuid2 example_request)
   \<and> fst (get_download_affidavit ''s3cret'' (Some ''Bearer s3cret'')
          ''VAULT_Affidavit_TX123_0000002a.pdf''
          (snd (post_generate_affidavit ''s3cret'' example_backend example_uuid' example_uuid
             example_now (Some ''Bearer s3cret'') example_request
             (example_world\<lparr>fs := (fs example_world)
                (cwd example_world @ [PDF_STORAGE_DIR, ''VAULT_Affidavit_TX123_0000002a.pdf'']
                   \<mapsto> File (example_pdf example_uuid2 example_request))\<rparr>)))) =
       Inr (example_pdf example_uuid example_request)
   \<and> example_pdf example_uuid2 example_request \<noteq> example_pdf example_uuid example_request"
proof -
  have b1: "doc_build example_backend (SimpleDocTemplate letter 72 72 90 72)
              (elements example_backend example_now example_uuid2 example_request)
              add_page_elements = Inr (example_pdf example_uuid2 example_request)"
    and b2: "doc_build example_backend (SimpleDocTemplate letter 72 72 90 72)
              (elements example_backend example_now example_uuid example_request)
              add_page_elements = Inr (example_pdf example_uuid example_request)"
    by (simp_all add: example_build_ok example_pdf_def)
  note h = example_key_valid example_request_id example_world_dirs(1,2) example_world_no_dirs b1 b2
  note t1 = generate_twice(1) [OF h, where ?u1.0 = example_uuid, unfolded example_filename]
  note t2 = generate_twice(2) [OF h, where ?u1.0 = example_uuid and ?v1.0 = example_uuid',
      unfolded example_filename]
  note t3 = generate_twice(3) [OF h, where ?u1.0 = example_uuid, unfolded example_filename]
  note t4 = generate_twice(4) [OF h, where ?u1.0 = example_uuid and ?v1.0 = example_uuid',
      unfolded example_filename]
  have "example_pdf example_uuid2 example_request \<noteq> example_pdf example_uuid example_request"
    by (simp add: example_pdf_eq_iff example_hashes)
  with example_uuids_differ t1 t2 t3 t4 show ?thesis
    by (simp only: fst_conv snd_conv if_True simp_thms)
qed

subsection \<open>Histories of Generate calls\<close>









end
